theory Spec2Isabelle
  imports Main "HOL-Library.AList" "HOL-Library.Multiset"
begin

section \<open>JavaScript values\<close>

text \<open>
  The values that peer records, configuration documents and version arguments carry:
  the primitives and plain objects. An object is the list of its own properties in
  insertion order, with pairwise distinct keys. Numbers are the integers in plain decimal
  notation. Arrays occur only as the peer lists themselves, which are HOL lists.
\<close>

datatype jsval =
    JUndefined
  | JNull
  | JBool bool
  | JNum int
  | JStr string
  | JObj "(string \<times> jsval) list"

type_synonym obj = "(string \<times> jsval) list"

text \<open>Truthiness, as \<open>!x\<close>, \<open>x || y\<close>, \<open>x && y\<close> and \<open>if (x)\<close> test it.\<close>

fun truthy :: "jsval \<Rightarrow> bool" where
  "truthy JUndefined = False"
| "truthy JNull = False"
| "truthy (JBool b) = b"
| "truthy (JNum n) = (n \<noteq> 0)"
| "truthy (JStr s) = (s \<noteq> [])"
| "truthy (JObj ps) = True"

text \<open>
  \<open>o.k\<close> on an object: the value of the own property, \<open>undefined\<close> when there is none.
\<close>

definition get :: "obj \<Rightarrow> string \<Rightarrow> jsval" where
  "get ob k = (case map_of ob k of None \<Rightarrow> JUndefined | Some v \<Rightarrow> v)"

text \<open>
  \<open>v.k\<close> on a value that is not \<open>undefined\<close> or \<open>null\<close>, for the keys the program reads
  (\<open>data\<close>, \<open>plugins\<close>, \<open>enabled\<close>, \<open>port\<close>, ...): a primitive has none of them. Every call
  site guards the receiver by its truthiness, so the two nullish cases are never reached.
\<close>

fun prop_of :: "jsval \<Rightarrow> string \<Rightarrow> jsval" where
  "prop_of (JObj ob) k = get ob k"
| "prop_of _ k = JUndefined"

text \<open>
  \<open>a === b\<close>: primitives are compared by value; two objects are equal only when they are
  the same object, which values of separately received documents never are.
\<close>

fun strict_eq :: "jsval \<Rightarrow> jsval \<Rightarrow> bool" where
  "strict_eq (JObj x) b = False"
| "strict_eq a (JObj y) = False"
| "strict_eq a b = (a = b)"

text \<open>Decimal notation of a number, as a template literal prints it.\<close>

definition digit_char :: "nat \<Rightarrow> char" where
  "digit_char d = ''0123456789'' ! d"

fun digits_of :: "nat \<Rightarrow> string" where
  "digits_of n = (if n < 10 then [digit_char n]
                  else digits_of (n div 10) @ [digit_char (n mod 10)])"

declare digits_of.simps [simp del]

text \<open>\<open>String(v)\<close>, the conversion of template literals and of \<open>RegExp.test\<close>.\<close>

fun to_string :: "jsval \<Rightarrow> string" where
  "to_string JUndefined = ''undefined''"
| "to_string JNull = ''null''"
| "to_string (JBool b) = (if b then ''true'' else ''false'')"
| "to_string (JNum n) = (if n < 0 then CHR ''-'' # digits_of (nat (- n)) else digits_of (nat n))"
| "to_string (JStr s) = s"
| "to_string (JObj ps) = ''[object Object]''"

text \<open>
  \<open>{...a, ...b}\<close>: the properties of \<open>a\<close> in their order, each property of \<open>b\<close> written
  over them in turn (a key of \<open>a\<close> keeps its place, a new key goes to the end).
\<close>

definition spread :: "obj \<Rightarrow> obj \<Rightarrow> obj" where
  "spread a b = fold (\<lambda>(k, v) acc. AList.update k v acc) b a"

section \<open>mergePeerArrays\<close>

text \<open>
  Lines 8-21. Both loops push onto \<open>peers\<close>; \<open>Array.prototype.find\<close> is \<open>find\<close>, and its
  \<open>undefined\<close> is replaced by the empty object in the first loop.
\<close>

definition mergePeerArrays :: "obj list \<Rightarrow> obj list \<Rightarrow> obj list" where
  "mergePeerArrays oldArray newArray =
     (let peers = fold (\<lambda>oldPeer peers.
                    let newPeer = (case find (\<lambda>peer. strict_eq (get peer ''ip'') (get oldPeer ''ip''))
                                          newArray of
                                     None \<Rightarrow> [] | Some found \<Rightarrow> found)
                    in peers @ [spread oldPeer newPeer]) oldArray [];
          peers = fold (\<lambda>newPeer peers.
                    if find (\<lambda>peer. strict_eq (get peer ''ip'') (get newPeer ''ip'')) peers = None
                    then peers @ [newPeer] else peers) newArray peers
      in peers)"

subsection \<open>The merge as the specification words it\<close>

text \<open>
  The overlay of a base record: the shallow field-merge with the first incoming record of
  the same \<open>ip\<close>, the record itself when there is none.
\<close>

definition overlay :: "obj list \<Rightarrow> obj \<Rightarrow> obj" where
  "overlay incoming b =
     (case find (\<lambda>n. strict_eq (get n ''ip'') (get b ''ip'')) incoming of
        None \<Rightarrow> b
      | Some n \<Rightarrow> spread b n)"

text \<open>
  The incoming records whose \<open>ip\<close> does not occur among the records already placed, in
  incoming order; a record that is appended counts as placed for the later ones.
\<close>

fun unplaced :: "obj list \<Rightarrow> obj list \<Rightarrow> obj list" where
  "unplaced placed [] = []"
| "unplaced placed (n # ns) =
     (if list_ex (\<lambda>p. strict_eq (get p ''ip'') (get n ''ip'')) placed
      then unplaced placed ns
      else n # unplaced (placed @ [n]) ns)"

definition merge_spec :: "obj list \<Rightarrow> obj list \<Rightarrow> obj list" where
  "merge_spec base incoming =
     (let merged = map (overlay incoming) base in merged @ unplaced merged incoming)"

section \<open>Errors and collaborators\<close>

text \<open>
  The source throws plain \<open>Error\<close> objects; the constructors carry the names the
  specification gives them. \<open>TypeError\<close> is the error of the runtime (iterating
  \<open>undefined\<close>, reading a property of \<open>undefined\<close>), \<open>TransportFailure\<close> a rejected
  request.
\<close>

datatype error =
    UnsupportedNetworkError string
  | InvalidVersionError
  | NoApiPeerFoundError
  | TypeError
  | TransportFailure

text \<open>A request either rejects (timeout, refused connection, malformed body) or resolves.\<close>

datatype 'a outcome = Rejected | Resolved 'a

text \<open>
  The body of a peer-list response, as far as the program reads it: \<open>success\<close>, \<open>peers\<close>
  and \<open>data\<close>; a missing array is \<open>None\<close>. The entries of the arrays are objects. A
  response with no body, or with a \<open>null\<close> entry in the array the version reads, throws
  inside the \<open>try\<close> as a rejected request does, and stands as \<open>Rejected\<close>.
\<close>

record peers_body =
  body_success :: jsval
  body_peers :: "obj list option"
  body_data :: "obj list option"

text \<open>A \<open>get\<close> request of \<open>HttpClient.sendRequest\<close>: the client's host and the endpoint.\<close>

type_synonym request = "string \<times> string option"

text \<open>
  What the program takes from outside \<open>lib/index.js\<close>: the seed table of \<open>./peers\<close>, the
  copy that lodash's \<open>shuffle\<close> returns, the order of \<open>./utils/sort-peers\<close>, and the two
  kinds of request. A response may depend on the requests made before it (the log) and
  on the request itself.
\<close>

record world =
  initialPeers :: "string \<rightharpoonup> obj list"
  shuffle :: "obj list \<Rightarrow> obj list"
  sortPeers :: "obj list \<Rightarrow> obj list"
  peers_all :: "string list \<Rightarrow> string \<Rightarrow> peers_body outcome"
  sendRequest :: "request list \<Rightarrow> request \<Rightarrow> jsval outcome"

text \<open>
  lodash's \<open>cloneDeep\<close>: the copy differs from its argument in identity only, and values
  have none.
\<close>

definition cloneDeep :: "'a \<Rightarrow> 'a" where
  "cloneDeep x = x"

section \<open>getPeerVersion\<close>

text \<open>Line 24; \<open>/^1\./.test(v)\<close> converts \<open>v\<close> to a string first.\<close>

definition getPeerVersion :: "obj \<Rightarrow> int" where
  "getPeerVersion peer =
     (if \<not> truthy (get peer ''version'') \<or> take 2 (to_string (get peer ''version'')) = ''1.''
      then 1 else 2)"

section \<open>findPeers\<close>

text \<open>The third argument: left out (\<open>undefined\<close>), \<open>null\<close>, or an array of peers.\<close>

datatype override = Undefined | Null | Peers "obj list"

definition selfIps :: "jsval list" where
  "selfIps = [JStr ''127.0.0.1'', JStr ''::ffff:127.0.0.1'', JStr ''::1'']"

definition versionStatus :: "jsval list" where
  "versionStatus = [JStr ''OK'', JNum 200]"

text \<open>Lines 55-56.\<close>

definition peerUrl :: "obj \<Rightarrow> string" where
  "peerUrl peer =
     (let scheme = (if truthy (get peer ''isHttps'') then ''https://'' else ''http://'')
      in scheme @ to_string (get peer ''ip'') @ '':'' @ to_string (get peer ''port''))"

text \<open>
  Lines 62-69, inside the \<open>try\<close>: the peer list a response is read as. Reading \<open>length\<close>
  of a missing \<open>data\<close> array throws.
\<close>

definition responsePeers_of :: "jsval \<Rightarrow> peers_body outcome \<Rightarrow> error + obj list" where
  "responsePeers_of version response =
     (case response of
        Rejected \<Rightarrow> Inl TransportFailure
      | Resolved data \<Rightarrow>
          (case (if version = JNum 1 \<and> truthy (body_success data) then body_peers data else None) of
             Some ps \<Rightarrow> Inr ps
           | None \<Rightarrow>
               if version = JNum 2
               then (case body_data data of
                       None \<Rightarrow> Inl TypeError
                     | Some ds \<Rightarrow> if length ds \<noteq> 0 then Inr ds else Inr [])
               else Inr []))"

text \<open>Lines 73-79: the callback of the filter.\<close>

definition keep_peer :: "jsval \<Rightarrow> obj \<Rightarrow> bool" where
  "keep_peer version peer =
     (if version = JNum 1 \<and> get peer ''status'' \<notin> set versionStatus then False
      else get peer ''ip'' \<notin> set selfIps \<and> JNum (getPeerVersion peer) = version)"

text \<open>
  Lines 54-92: the loop over the candidates, with \<open>checks\<close>, \<open>peers\<close> and the log of the
  hosts the scratch client was bound to. An error inside the \<open>try\<close> is swallowed; the
  \<open>break\<close> returns.
\<close>

fun probe_loop ::
  "world \<Rightarrow> jsval \<Rightarrow> obj list \<Rightarrow> nat \<Rightarrow> obj list \<Rightarrow> string list \<Rightarrow> nat \<times> obj list \<times> string list"
where
  "probe_loop w version [] checks peers log = (checks, peers, log)"
| "probe_loop w version (peer # rest) checks peers log =
     (case responsePeers_of version (peers_all w log (peerUrl peer)) of
        Inl err \<Rightarrow> probe_loop w version rest checks peers (log @ [peerUrl peer])
      | Inr responsePeers \<Rightarrow>
          if length responsePeers \<noteq> 0
          then (let responsePeers = filter (keep_peer version) responsePeers;
                    peers = mergePeerArrays peers responsePeers;
                    checks = checks + 1
                in if checks \<ge> 2 then (checks, peers, log @ [peerUrl peer])
                   else probe_loop w version rest checks peers (log @ [peerUrl peer]))
          else probe_loop w version rest checks peers (log @ [peerUrl peer]))"

text \<open>Line 40: an array is truthy, also the empty one; \<open>undefined\<close> and \<open>null\<close> are not.\<close>

definition networkPeers_of :: "world \<Rightarrow> string \<Rightarrow> override \<Rightarrow> obj list option" where
  "networkPeers_of w network peersOverride =
     (case peersOverride of Peers ps \<Rightarrow> Some ps | _ \<Rightarrow> initialPeers w network)"

text \<open>
  Lines 35-96. The result is the returned list and the log of the hosts probed. The
  array that \<open>shuffle\<close> returns is dropped (line 43); iterating a missing candidate list
  throws (line 54). The scratch client of lines 49-50 is built with \<open>version || 1\<close>, which
  setVersion accepts; it carries the host of each probe, which the log records.
\<close>

definition findPeers ::
  "world \<Rightarrow> string \<Rightarrow> jsval \<Rightarrow> override \<Rightarrow> error + (obj list \<times> string list)"
where
  "findPeers w network version0 peersOverride =
     (let version = (if version0 = JUndefined then JNum 1 else version0)
      in if peersOverride = Undefined \<and> network \<notin> dom (initialPeers w)
         then Inl (UnsupportedNetworkError network)
         else (case networkPeers_of w network peersOverride of
                 None \<Rightarrow> Inl TypeError
               | Some networkPeers \<Rightarrow>
                   (let shuffled = shuffle w networkPeers;
                        (checks, peers, log) = probe_loop w version networkPeers 0 [] []
                    in Inr (cloneDeep (sortPeers w
                              (if length peers \<noteq> 0 then peers else networkPeers)), log))))"

text \<open>
  The responses the candidates give when probed one after the other, starting from a log.
\<close>

fun responses :: "world \<Rightarrow> string list \<Rightarrow> obj list \<Rightarrow> peers_body outcome list" where
  "responses w log [] = []"
| "responses w log (peer # rest) =
     peers_all w log (peerUrl peer) # responses w (log @ [peerUrl peer]) rest"

text \<open>A response that the loop counts as a check (lines 71 and 83).\<close>

definition counted :: "jsval \<Rightarrow> peers_body outcome \<Rightarrow> bool" where
  "counted version response =
     (case responsePeers_of version response of Inl err \<Rightarrow> False | Inr ps \<Rightarrow> ps \<noteq> [])"

text \<open>A response whose accepted and filtered peer list is not empty.\<close>

definition yields_filtered :: "jsval \<Rightarrow> peers_body outcome \<Rightarrow> bool" where
  "yields_filtered version response =
     (case responsePeers_of version response of
        Inl err \<Rightarrow> False
      | Inr ps \<Rightarrow> filter (keep_peer version) ps \<noteq> [])"

section \<open>fetchPeerConfig and selectApiPeer\<close>

definition is_digit :: "char \<Rightarrow> bool" where
  "is_digit c = (c \<in> set ''0123456789'')"

text \<open>
  Line 106, \<open>host.replace(/:\d+/, ':4040')\<close>: the leftmost colon that digits follow goes,
  with all the digits after it, and \<open>:4040\<close> takes its place.
\<close>

fun walletApiHost :: "string \<Rightarrow> string" where
  "walletApiHost [] = []"
| "walletApiHost (c # cs) =
     (if c = CHR '':'' \<and> takeWhile is_digit cs \<noteq> []
      then '':4040'' @ dropWhile is_digit cs
      else c # walletApiHost cs)"

text \<open>Lines 107-120.\<close>

definition attempts :: "string \<Rightarrow> request list" where
  "attempts host =
     [(host, Some ''/config''),
      (walletApiHost host, Some ''/config''),
      (walletApiHost host, None)]"

text \<open>
  Lines 122-135: a rejected request and a falsy body go on to the next attempt, a truthy
  body returns its \<open>data\<close>; \<open>null\<close> in the end.
\<close>

fun attempt_loop :: "world \<Rightarrow> request list \<Rightarrow> request list \<Rightarrow> jsval \<times> request list" where
  "attempt_loop w [] log = (JNull, log)"
| "attempt_loop w (attempt # rest) log =
     (case sendRequest w log attempt of
        Rejected \<Rightarrow> attempt_loop w rest (log @ [attempt])
      | Resolved data \<Rightarrow>
          if truthy data then (prop_of data ''data'', log @ [attempt])
          else attempt_loop w rest (log @ [attempt]))"

definition fetchPeerConfig :: "world \<Rightarrow> string \<Rightarrow> request list \<Rightarrow> jsval \<times> request list" where
  "fetchPeerConfig w host log = attempt_loop w (attempts host) log"

definition core_api :: string where
  "core_api = ''@arkecosystem/core-api''"

text \<open>Lines 150-151: the condition on a fetched configuration.\<close>

definition api_enabled :: "jsval \<Rightarrow> bool" where
  "api_enabled config =
     (truthy config \<and> truthy (prop_of config ''plugins'')
      \<and> truthy (prop_of (prop_of config ''plugins'') core_api)
      \<and> truthy (prop_of (prop_of (prop_of config ''plugins'') core_api) ''enabled''))"

text \<open>Line 154: the port the configuration gives the sub-service.\<close>

definition api_port :: "jsval \<Rightarrow> jsval" where
  "api_port config = prop_of (prop_of (prop_of config ''plugins'') core_api) ''port''"

text \<open>Line 147.\<close>

definition peerHost :: "obj \<Rightarrow> string" where
  "peerHost peer = ''http://'' @ to_string (get peer ''ip'') @ '':'' @ to_string (get peer ''port'')"

text \<open>Lines 145-160; \<open>None\<close> is the \<open>null\<close> result.\<close>

fun selectApiPeer :: "world \<Rightarrow> obj list \<Rightarrow> request list \<Rightarrow> obj option \<times> request list" where
  "selectApiPeer w [] log = (None, log)"
| "selectApiPeer w (peer # rest) log =
     (case fetchPeerConfig w (peerHost peer) log of
        (config, log') \<Rightarrow>
          if api_enabled config
          then (Some (spread peer [(''port'', api_port config)]), log')
          else selectApiPeer w rest log')"

text \<open>A failure or an empty response: the request is rejected, or its body is falsy.\<close>

definition fails :: "jsval outcome \<Rightarrow> bool" where
  "fails response = (case response of Rejected \<Rightarrow> True | Resolved data \<Rightarrow> \<not> truthy data)"

text \<open>A string in which no colon is directly followed by a digit.\<close>

fun colon_digit_free :: "string \<Rightarrow> bool" where
  "colon_digit_free [] = True"
| "colon_digit_free (c # cs) =
     ((c = CHR '':'' \<and> cs \<noteq> [] \<and> is_digit (hd cs)) = False \<and> colon_digit_free cs)"

text \<open>
  The configurations the peers answer with when they are asked one after the other,
  starting from a log.
\<close>

fun fetched :: "world \<Rightarrow> request list \<Rightarrow> obj list \<Rightarrow> jsval list" where
  "fetched w log [] = []"
| "fetched w log (peer # rest) =
     (case fetchPeerConfig w (peerHost peer) log of
        (config, log') \<Rightarrow> config # fetched w log' rest)"

section \<open>The client\<close>

text \<open>
  Modelled from the spec: \<open>HttpClient\<close> of \<open>./http\<close> is not among the sources. It is the
  transport that holds the target host and the protocol version it was given or set to.
\<close>

record HttpClient =
  hc_host :: string
  hc_version :: jsval

record ApiClient =
  this_http :: "HttpClient option"
  this_version :: jsval

text \<open>Lines 201-203.\<close>

definition setConnection :: "ApiClient \<Rightarrow> string \<Rightarrow> ApiClient" where
  "setConnection client host =
     client\<lparr>this_http := Some \<lparr>hc_host = host, hc_version = this_version client\<rparr>\<rparr>"

text \<open>Lines 218-227.\<close>

definition setVersion :: "ApiClient \<Rightarrow> jsval \<Rightarrow> error + ApiClient" where
  "setVersion client version =
     (if \<not> truthy version then Inl InvalidVersionError
      else (case this_http client of
              None \<Rightarrow> Inl TypeError
            | Some h \<Rightarrow>
                Inr (client\<lparr>this_version := version,
                            this_http := Some (h\<lparr>hc_version := version\<rparr>)\<rparr>)))"

text \<open>Lines 191-194: the constructor, on an object with no field set yet.\<close>

definition new_ApiClient :: "string \<Rightarrow> jsval \<Rightarrow> error + ApiClient" where
  "new_ApiClient host version =
     setVersion (setConnection \<lparr>this_http = None, this_version = JUndefined\<rparr> host)
       (if truthy version then version else JNum 1)"

text \<open>
  Lines 169-183. \<open>peers[0]\<close> of an empty list is \<open>undefined\<close>, whose \<open>ip\<close> cannot be read.
\<close>

definition connect :: "world \<Rightarrow> string \<Rightarrow> jsval \<Rightarrow> override \<Rightarrow> error + ApiClient" where
  "connect w network version peersOverride =
     (case findPeers w network version peersOverride of
        Inl err \<Rightarrow> Inl err
      | Inr (peers, log) \<Rightarrow>
          if version = JNum 1
          then (case peers of
                  [] \<Rightarrow> Inl TypeError
                | peer # rest \<Rightarrow> new_ApiClient (peerHost peer) version)
          else (case fst (selectApiPeer w peers []) of
                  None \<Rightarrow> Inl NoApiPeerFoundError
                | Some peer \<Rightarrow> new_ApiClient (peerHost peer) version))"

section \<open>Example inputs\<close>

text \<open>Three seed peers of a network, and peers that a probed node reports.\<close>

definition peerA :: obj where
  "peerA = [(''ip'', JStr ''10.0.0.1''), (''port'', JNum 4001)]"

definition peerB :: obj where
  "peerB = [(''ip'', JStr ''10.0.0.2''), (''port'', JNum 4001)]"

definition peerC :: obj where
  "peerC = [(''ip'', JStr ''10.0.0.3''), (''port'', JNum 4001)]"

definition seenD :: obj where
  "seenD = [(''ip'', JStr ''10.0.0.4''), (''port'', JNum 4001), (''status'', JStr ''OK''),
            (''version'', JStr ''1.6.0''), (''height'', JNum 100), (''delay'', JNum 20)]"

definition seenE :: obj where
  "seenE = [(''ip'', JStr ''10.0.0.5''), (''port'', JNum 4001), (''status'', JNum 200),
            (''height'', JNum 120), (''delay'', JNum 35)]"

definition seenSelf :: obj where
  "seenSelf = [(''ip'', JStr ''127.0.0.1''), (''port'', JNum 4001), (''status'', JStr ''OK''),
               (''version'', JStr ''1.6.0'')]"

definition seenDown :: obj where
  "seenDown = [(''ip'', JStr ''10.0.0.6''), (''port'', JNum 4001), (''status'', JNum 500),
               (''version'', JStr ''1.6.0'')]"

definition seenV2 :: obj where
  "seenV2 = [(''ip'', JStr ''10.0.0.7''), (''port'', JNum 4002), (''status'', JStr ''OK''),
             (''version'', JStr ''2.1.0'')]"

text \<open>A version-1 body that reports success with the given peers.\<close>

definition v1_body :: "obj list \<Rightarrow> peers_body" where
  "v1_body ps = \<lparr>body_success = JBool True, body_peers = Some ps, body_data = None\<rparr>"

text \<open>
  A sort by descending \<open>height\<close>, then ascending \<open>delay\<close> (two stable passes), the order
  the specification gives the sort collaborator.
\<close>

definition num_of :: "jsval \<Rightarrow> int" where
  "num_of v = (case v of JNum n \<Rightarrow> n | _ \<Rightarrow> 0)"

definition by_height_delay :: "obj list \<Rightarrow> obj list" where
  "by_height_delay ps =
     sort_key (\<lambda>p. - num_of (get p ''height'')) (sort_key (\<lambda>p. num_of (get p ''delay'')) ps)"

text \<open>
  A peer with an IPv4-mapped IPv6 address that runs version 2.
\<close>

definition seenMapped :: obj where
  "seenMapped = [(''ip'', JStr ''::ffff:10.0.0.5''), (''port'', JNum 4003),
                 (''version'', JStr ''2.1.0'')]"

text \<open>
  Configuration documents: one that enables the sub-service on port 4003, one that has
  the plugin but disabled, on port 4004, and one that enables it on port 4103.
\<close>

definition config_doc :: jsval where
  "config_doc =
     JObj [(''plugins'',
            JObj [(''@arkecosystem/core-api'',
                   JObj [(''enabled'', JBool True), (''port'', JNum 4003)])])]"

definition disabled_doc :: jsval where
  "disabled_doc =
     JObj [(''plugins'',
            JObj [(''@arkecosystem/core-api'',
                   JObj [(''enabled'', JBool False), (''port'', JNum 4004)])])]"

definition other_doc :: jsval where
  "other_doc =
     JObj [(''plugins'',
            JObj [(''@arkecosystem/core-api'',
                   JObj [(''enabled'', JBool True), (''port'', JNum 4103)])])]"

text \<open>
  A world where no request is ever answered, one where the second and third seed peers
  answer (the second with one usable peer among four), and one where every node reports
  only the local address. In the last two, the node at 10.0.0.5 serves its configuration on
  the alternate port only, the node at 10.0.0.4 has the sub-service disabled, and the node
  at 10.0.0.1 answers the bare request to the alternate port only.
\<close>

definition dead_world :: world where
  "dead_world =
     \<lparr>initialPeers = [''devnet'' \<mapsto> [peerA, peerB, peerC]],
      shuffle = rev,
      sortPeers = by_height_delay,
      peers_all = (\<lambda>log url. Rejected),
      sendRequest = (\<lambda>log req. Rejected)\<rparr>"

definition live_world :: world where
  "live_world =
     dead_world\<lparr>
       peers_all := (\<lambda>log url.
          if url = ''http://10.0.0.2:4001'' then Resolved (v1_body [seenD, seenSelf, seenDown, seenV2])
          else if url = ''http://10.0.0.3:4001'' then Resolved (v1_body [seenE])
          else Rejected),
       sendRequest := (\<lambda>log req.
          if req = (''http://10.0.0.5:4040'', Some ''/config'')
          then Resolved (JObj [(''data'', config_doc)])
          else if req = (''http://10.0.0.4:4001'', Some ''/config'')
          then Resolved (JObj [(''data'', disabled_doc)])
          else if req = (''http://10.0.0.1:4040'', None)
          then Resolved (JObj [(''data'', other_doc)])
          else Rejected)\<rparr>"

definition selfish_world :: world where
  "selfish_world = live_world\<lparr>peers_all := (\<lambda>log url. Resolved (v1_body [seenSelf]))\<rparr>"

section \<open>Properties of the merge\<close>

lemma spread_empty: "spread a [] = a"
  by (simp add: spread_def)

lemma find_None_list_ex: "(find P xs = None) = (\<not> list_ex P xs)"
  by (induction xs) auto

lemma first_loop_map:
  "fold (\<lambda>oldPeer peers.
       let newPeer = (case find (\<lambda>peer. strict_eq (get peer ''ip'') (get oldPeer ''ip'')) newArray of
                        None \<Rightarrow> [] | Some found \<Rightarrow> found)
       in peers @ [spread oldPeer newPeer]) oldArray acc
   = acc @ map (overlay newArray) oldArray"
proof (induction oldArray arbitrary: acc)
  case Nil
  show ?case by simp
next
  case (Cons b bs)
  have "spread b (case find (\<lambda>peer. strict_eq (get peer ''ip'') (get b ''ip'')) newArray of
                    None \<Rightarrow> [] | Some found \<Rightarrow> found) = overlay newArray b"
    by (simp add: overlay_def spread_empty split: option.split)
  with Cons show ?case by (simp add: Let_def)
qed

lemma second_loop_unplaced:
  "fold (\<lambda>newPeer peers.
       if find (\<lambda>peer. strict_eq (get peer ''ip'') (get newPeer ''ip'')) peers = None
       then peers @ [newPeer] else peers) newArray acc
   = acc @ unplaced acc newArray"
  by (induction newArray arbitrary: acc) (simp_all add: find_None_list_ex)

lemma mergePeerArrays_refines: "mergePeerArrays base incoming = merge_spec base incoming"
  unfolding mergePeerArrays_def merge_spec_def Let_def
  by (simp only: first_loop_map [unfolded Let_def] second_loop_unplaced append_Nil)

lemma mergePeerArrays_Nil2: "mergePeerArrays base [] = base"
proof -
  have "map (overlay []) base = base"
    by (induction base) (simp_all add: overlay_def)
  then show ?thesis
    by (simp add: mergePeerArrays_refines merge_spec_def)
qed

text \<open>
  The shallow field-merge: a field the incoming record has takes the incoming value, any
  other field keeps the value of the base record.
\<close>

lemma map_of_spread:
  "distinct (map fst n) \<Longrightarrow> map_of (spread b n) = map_of b ++ map_of n"
proof (induction n arbitrary: b)
  case Nil
  show ?case by (simp add: spread_def)
next
  case (Cons kv n)
  obtain k v where kv: "kv = (k, v)" by (cases kv)
  from Cons.prems kv have fresh: "k \<notin> fst ` set n" and rest: "distinct (map fst n)"
    by auto
  have "spread b (kv # n) = spread (AList.update k v b) n"
    by (simp add: spread_def kv)
  then have "map_of (spread b (kv # n)) = (map_of b)(k \<mapsto> v) ++ map_of n"
    by (simp only: Cons.IH [OF rest] update_conv')
  also have "\<dots> = map_of b ++ map_of (kv # n)"
  proof (rule ext)
    fix x
    have none: "map_of n k = None" using fresh by (simp add: map_of_eq_None_iff)
    show "((map_of b)(k \<mapsto> v) ++ map_of n) x = (map_of b ++ map_of (kv # n)) x"
      using none by (cases "x = k") (simp_all add: kv map_add_def split: option.splits)
  qed
  finally show ?case .
qed

lemma get_spread:
  "distinct (map fst n) \<Longrightarrow>
   get (spread b n) k = (case map_of n k of Some v \<Rightarrow> v | None \<Rightarrow> get b k)"
  by (simp add: get_def map_of_spread map_add_def split: option.splits)

text \<open>
  C3. The merge of the source equals the merge of the specification: each base record in
  order, overlaid with the first incoming record of the same ip (the base record itself
  when no incoming record has its ip), then the incoming records whose ip is not among the
  records already placed, in incoming order. In the overlay the incoming fields win and
  the base fields are kept where the incoming record is silent. The example of the
  specification comes out with its exact order and overlay, and merging the empty list
  changes nothing.
\<close>

theorem C3_mergePeerArrays_spec:
  "mergePeerArrays base incoming = merge_spec base incoming
   \<and> (distinct (map fst n) \<longrightarrow>
        get (spread b n) k = (case map_of n k of Some v \<Rightarrow> v | None \<Rightarrow> get b k))
   \<and> mergePeerArrays
        [[(''ip'', JStr ''A''), (''port'', JNum 1)], [(''ip'', JStr ''B''), (''port'', JNum 2)]]
        [[(''ip'', JStr ''B''), (''port'', JNum 22), (''version'', JStr ''2'')],
         [(''ip'', JStr ''C''), (''port'', JNum 3)]]
      = [[(''ip'', JStr ''A''), (''port'', JNum 1)],
         [(''ip'', JStr ''B''), (''port'', JNum 22), (''version'', JStr ''2'')],
         [(''ip'', JStr ''C''), (''port'', JNum 3)]]
   \<and> mergePeerArrays base [] = base"
proof (intro conjI impI)
  show "mergePeerArrays base incoming = merge_spec base incoming"
    by (rule mergePeerArrays_refines)
  show "get (spread b n) k = (case map_of n k of Some v \<Rightarrow> v | None \<Rightarrow> get b k)"
    if "distinct (map fst n)"
    using that by (rule get_spread)
  show "mergePeerArrays
        [[(''ip'', JStr ''A''), (''port'', JNum 1)], [(''ip'', JStr ''B''), (''port'', JNum 2)]]
        [[(''ip'', JStr ''B''), (''port'', JNum 22), (''version'', JStr ''2'')],
         [(''ip'', JStr ''C''), (''port'', JNum 3)]]
      = [[(''ip'', JStr ''A''), (''port'', JNum 1)],
         [(''ip'', JStr ''B''), (''port'', JNum 22), (''version'', JStr ''2'')],
         [(''ip'', JStr ''C''), (''port'', JNum 3)]]"
    by (simp add: mergePeerArrays_def spread_def get_def)
  show "mergePeerArrays base [] = base"
    by (rule mergePeerArrays_Nil2)
qed

theorem C3_mergePeerArrays_spec_witness:
  "distinct (map fst [(''ip'', JStr ''B''), (''port'', JNum 22), (''version'', JStr ''2'')])
   \<and> get (spread [(''ip'', JStr ''B''), (''port'', JNum 2), (''height'', JNum 7)]
                  [(''ip'', JStr ''B''), (''port'', JNum 22), (''version'', JStr ''2'')]) ''port''
       = JNum 22
   \<and> get (spread [(''ip'', JStr ''B''), (''port'', JNum 2), (''height'', JNum 7)]
                  [(''ip'', JStr ''B''), (''port'', JNum 22), (''version'', JStr ''2'')]) ''height''
       = JNum 7
   \<and> merge_spec [[(''ip'', JStr ''B''), (''port'', JNum 2)]]
         [[(''ip'', JStr ''C'')], [(''ip'', JStr ''B''), (''port'', JNum 22)], [(''ip'', JStr ''C''), (''port'', JNum 3)]]
       = [[(''ip'', JStr ''B''), (''port'', JNum 22)], [(''ip'', JStr ''C'')]]"
proof -
  have d: "distinct (map fst [(''ip'', JStr ''B''), (''port'', JNum 22), (''version'', JStr ''2'')])"
    by simp
  have p: "get (spread [(''ip'', JStr ''B''), (''port'', JNum 2), (''height'', JNum 7)]
                  [(''ip'', JStr ''B''), (''port'', JNum 22), (''version'', JStr ''2'')]) ''port''
       = JNum 22"
    using C3_mergePeerArrays_spec
      [where n = "[(''ip'', JStr ''B''), (''port'', JNum 22), (''version'', JStr ''2'')]"
         and b = "[(''ip'', JStr ''B''), (''port'', JNum 2), (''height'', JNum 7)]"
         and k = "''port''"] d
    by simp
  have h: "get (spread [(''ip'', JStr ''B''), (''port'', JNum 2), (''height'', JNum 7)]
                  [(''ip'', JStr ''B''), (''port'', JNum 22), (''version'', JStr ''2'')]) ''height''
       = JNum 7"
    using C3_mergePeerArrays_spec
      [where n = "[(''ip'', JStr ''B''), (''port'', JNum 22), (''version'', JStr ''2'')]"
         and b = "[(''ip'', JStr ''B''), (''port'', JNum 2), (''height'', JNum 7)]"
         and k = "''height''"] d
    by (simp add: get_def)
  have "mergePeerArrays [[(''ip'', JStr ''B''), (''port'', JNum 2)]]
         [[(''ip'', JStr ''C'')], [(''ip'', JStr ''B''), (''port'', JNum 22)], [(''ip'', JStr ''C''), (''port'', JNum 3)]]
       = [[(''ip'', JStr ''B''), (''port'', JNum 22)], [(''ip'', JStr ''C'')]]"
    by (simp add: mergePeerArrays_def spread_def get_def)
  then have m: "merge_spec [[(''ip'', JStr ''B''), (''port'', JNum 2)]]
         [[(''ip'', JStr ''C'')], [(''ip'', JStr ''B''), (''port'', JNum 22)], [(''ip'', JStr ''C''), (''port'', JNum 3)]]
       = [[(''ip'', JStr ''B''), (''port'', JNum 22)], [(''ip'', JStr ''C'')]]"
    using C3_mergePeerArrays_spec
      [where base = "[[(''ip'', JStr ''B''), (''port'', JNum 2)]]"
         and incoming = "[[(''ip'', JStr ''C'')], [(''ip'', JStr ''B''), (''port'', JNum 22)], [(''ip'', JStr ''C''), (''port'', JNum 3)]]"]
    by simp
  from d p h m show ?thesis by blast
qed

section \<open>The example inputs, evaluated\<close>


lemma seed_urls:
  "peerUrl peerA = ''http://10.0.0.1:4001''"
  "peerUrl peerB = ''http://10.0.0.2:4001''"
  "peerUrl peerC = ''http://10.0.0.3:4001''"
  by (simp_all add: peerUrl_def peerA_def peerB_def peerC_def get_def digits_of.simps
        digit_char_def)

lemma sort_seed: "by_height_delay [peerA, peerB, peerC] = [peerA, peerB, peerC]"
  by (simp add: by_height_delay_def peerA_def peerB_def peerC_def get_def num_of_def)

lemma kept_examples:
  "keep_peer (JNum 1) seenD"
  "keep_peer (JNum 1) seenE"
  "\<not> keep_peer (JNum 1) seenSelf"
  "\<not> keep_peer (JNum 1) seenDown"
  "\<not> keep_peer (JNum 1) seenV2"
  by (simp_all add: keep_peer_def getPeerVersion_def selfIps_def versionStatus_def get_def
        seenD_def seenE_def seenSelf_def seenDown_def seenV2_def)

lemma merge_D: "mergePeerArrays [] [seenD] = [seenD]"
  by (simp add: mergePeerArrays_def)

lemma merge_DE: "mergePeerArrays [seenD] [seenE] = [seenD, seenE]"
  by (simp add: mergePeerArrays_def spread_def get_def seenD_def seenE_def)

lemma sort_DE: "by_height_delay [seenD, seenE] = [seenE, seenD]"
  by (simp add: by_height_delay_def seenD_def seenE_def get_def num_of_def)

lemma live_run:
  "probe_loop live_world (JNum 1) [peerA, peerB, peerC] 0 [] []
     = (2, [seenD, seenE],
        [''http://10.0.0.1:4001'', ''http://10.0.0.2:4001'', ''http://10.0.0.3:4001''])"
  by (simp add: seed_urls live_world_def dead_world_def responsePeers_of_def v1_body_def
        kept_examples merge_D merge_DE)

lemma selfish_run:
  "probe_loop selfish_world (JNum 1) [peerA, peerB, peerC] 0 [] []
     = (2, [], [''http://10.0.0.1:4001'', ''http://10.0.0.2:4001''])"
  by (simp add: seed_urls selfish_world_def live_world_def dead_world_def responsePeers_of_def
        v1_body_def kept_examples mergePeerArrays_def)

section \<open>The result of findPeers\<close>

lemma probe_loop_rejected:
  "\<forall>log url. peers_all w log url = Rejected \<Longrightarrow>
   probe_loop w version cs checks acc log = (checks, acc, log @ map peerUrl cs)"
  by (induction cs arbitrary: log) (simp_all add: responsePeers_of_def)



section \<open>The filter of findPeers\<close>

lemma merge_ED: "mergePeerArrays [seenE] [seenD] = [seenE, seenD]"
  by (simp add: mergePeerArrays_def spread_def get_def seenD_def seenE_def)

lemma keep_peer_words:
  "keep_peer version peer \<longleftrightarrow>
      get peer ''ip'' \<notin> {JStr ''127.0.0.1'', JStr ''::ffff:127.0.0.1'', JStr ''::1''}
      \<and> (version = JNum 1 \<longrightarrow> get peer ''status'' = JStr ''OK'' \<or> get peer ''status'' = JNum 200)
      \<and> JNum (if \<not> truthy (get peer ''version'')
                    \<or> take 2 (to_string (get peer ''version'')) = ''1.'' then 1 else 2) = version"
  by (auto simp: keep_peer_def selfIps_def versionStatus_def getPeerVersion_def)

lemma filter_step:
  "responsePeers_of version (peers_all w log (peerUrl candidate)) = Inr ps \<Longrightarrow> ps \<noteq> [] \<Longrightarrow>
   probe_loop w version (candidate # rest) checks acc log
     = (if checks + 1 \<ge> 2
        then (checks + 1, mergePeerArrays acc (filter (keep_peer version) ps), log @ [peerUrl candidate])
        else probe_loop w version rest (checks + 1)
               (mergePeerArrays acc (filter (keep_peer version) ps)) (log @ [peerUrl candidate]))"
  by (simp add: Let_def)

text \<open>
  C4. The filter keeps a reported peer exactly when its ip is none of the three self
  addresses, its status is "OK" or 200 if version 1 is probed for, and its classified
  version is the version probed for. The classification is 1 exactly when the version
  field is falsy or its string starts with "1.", and 2 otherwise. At every turn of the
  loop, whatever the checks and the peers accumulated so far, the peers of an accepted
  non-empty response that are merged are exactly the ones that meet these three
  conditions.
\<close>

theorem C4_filter_keeps:
  "(keep_peer version peer \<longleftrightarrow>
      get peer ''ip'' \<notin> {JStr ''127.0.0.1'', JStr ''::ffff:127.0.0.1'', JStr ''::1''}
      \<and> (version = JNum 1 \<longrightarrow> get peer ''status'' = JStr ''OK'' \<or> get peer ''status'' = JNum 200)
      \<and> JNum (getPeerVersion peer) = version)
   \<and> (getPeerVersion peer = 1 \<longleftrightarrow>
        \<not> truthy (get peer ''version'') \<or> take 2 (to_string (get peer ''version'')) = ''1.'')
   \<and> (getPeerVersion peer \<noteq> 1 \<longrightarrow> getPeerVersion peer = 2)
   \<and> (responsePeers_of version (peers_all w log (peerUrl candidate)) = Inr ps \<and> ps \<noteq> [] \<longrightarrow>
        probe_loop w version (candidate # rest) checks acc log
          = (let kept = filter (\<lambda>p.
                 get p ''ip'' \<notin> {JStr ''127.0.0.1'', JStr ''::ffff:127.0.0.1'', JStr ''::1''}
                 \<and> (version = JNum 1 \<longrightarrow> get p ''status'' = JStr ''OK'' \<or> get p ''status'' = JNum 200)
                 \<and> JNum (if \<not> truthy (get p ''version'')
                              \<or> take 2 (to_string (get p ''version'')) = ''1.'' then 1 else 2)
                     = version) ps;
                 merged = mergePeerArrays acc kept
             in if checks + 1 \<ge> 2 then (checks + 1, merged, log @ [peerUrl candidate])
                else probe_loop w version rest (checks + 1) merged (log @ [peerUrl candidate])))"
proof (intro conjI impI)
  show "keep_peer version peer \<longleftrightarrow>
      get peer ''ip'' \<notin> {JStr ''127.0.0.1'', JStr ''::ffff:127.0.0.1'', JStr ''::1''}
      \<and> (version = JNum 1 \<longrightarrow> get peer ''status'' = JStr ''OK'' \<or> get peer ''status'' = JNum 200)
      \<and> JNum (getPeerVersion peer) = version"
    by (auto simp: keep_peer_def selfIps_def versionStatus_def)
  show "getPeerVersion peer = 1 \<longleftrightarrow>
        \<not> truthy (get peer ''version'') \<or> take 2 (to_string (get peer ''version'')) = ''1.''"
    by (simp add: getPeerVersion_def)
  show "getPeerVersion peer = 2" if "getPeerVersion peer \<noteq> 1"
    using that by (simp add: getPeerVersion_def split: if_splits)
  assume "responsePeers_of version (peers_all w log (peerUrl candidate)) = Inr ps \<and> ps \<noteq> []"
  then have r: "responsePeers_of version (peers_all w log (peerUrl candidate)) = Inr ps"
    and ne: "ps \<noteq> []" by simp_all
  have same: "filter (keep_peer version) ps = filter (\<lambda>p.
                 get p ''ip'' \<notin> {JStr ''127.0.0.1'', JStr ''::ffff:127.0.0.1'', JStr ''::1''}
                 \<and> (version = JNum 1 \<longrightarrow> get p ''status'' = JStr ''OK'' \<or> get p ''status'' = JNum 200)
                 \<and> JNum (if \<not> truthy (get p ''version'')
                              \<or> take 2 (to_string (get p ''version'')) = ''1.'' then 1 else 2)
                     = version) ps"
    by (rule filter_cong [OF refl]) (rule keep_peer_words)
  show "probe_loop w version (candidate # rest) checks acc log
          = (let kept = filter (\<lambda>p.
                 get p ''ip'' \<notin> {JStr ''127.0.0.1'', JStr ''::ffff:127.0.0.1'', JStr ''::1''}
                 \<and> (version = JNum 1 \<longrightarrow> get p ''status'' = JStr ''OK'' \<or> get p ''status'' = JNum 200)
                 \<and> JNum (if \<not> truthy (get p ''version'')
                              \<or> take 2 (to_string (get p ''version'')) = ''1.'' then 1 else 2)
                     = version) ps;
                 merged = mergePeerArrays acc kept
             in if checks + 1 \<ge> 2 then (checks + 1, merged, log @ [peerUrl candidate])
                else probe_loop w version rest (checks + 1) merged (log @ [peerUrl candidate]))"
    unfolding Let_def same [symmetric] by (rule filter_step [OF r ne])
qed

theorem C4_filter_keeps_witness:
  "keep_peer (JNum 1) seenD
   \<and> get seenD ''status'' = JStr ''OK''
   \<and> getPeerVersion seenD = 1
   \<and> \<not> keep_peer (JNum 1) seenSelf
   \<and> \<not> keep_peer (JNum 1) seenDown
   \<and> get seenDown ''status'' = JNum 500
   \<and> \<not> keep_peer (JNum 1) seenV2
   \<and> getPeerVersion seenV2 = 2
   \<and> responsePeers_of (JNum 1) (peers_all live_world [''http://10.0.0.3:4001''] (peerUrl peerB))
       = Inr [seenD, seenSelf, seenDown, seenV2]
   \<and> probe_loop live_world (JNum 1) [peerB] 0 [] [''http://10.0.0.3:4001'']
       = (1, [seenD], [''http://10.0.0.3:4001'', ''http://10.0.0.2:4001''])
   \<and> probe_loop live_world (JNum 1) [peerB, peerA] 1 [seenE] [''http://10.0.0.3:4001'']
       = (2, [seenE, seenD], [''http://10.0.0.3:4001'', ''http://10.0.0.2:4001''])"
proof -
  let ?log = "[''http://10.0.0.3:4001'']"
  let ?ps = "[seenD, seenSelf, seenDown, seenV2]"
  have resp: "responsePeers_of (JNum 1) (peers_all live_world ?log (peerUrl peerB)) = Inr ?ps"
    by (simp add: seed_urls live_world_def dead_world_def responsePeers_of_def v1_body_def)
  have ne: "?ps \<noteq> []" by simp
  have vals: "get seenD ''status'' = JStr ''OK''" "get seenDown ''status'' = JNum 500"
    "get seenSelf ''ip'' = JStr ''127.0.0.1''" "get seenV2 ''version'' = JStr ''2.1.0''"
    "get seenD ''version'' = JStr ''1.6.0''" "get seenD ''ip'' = JStr ''10.0.0.4''"
    "get seenV2 ''ip'' = JStr ''10.0.0.7''" "get seenV2 ''status'' = JStr ''OK''"
    "get seenDown ''ip'' = JStr ''10.0.0.6''" "get seenDown ''version'' = JStr ''1.6.0''"
    "get seenSelf ''status'' = JStr ''OK''" "get seenSelf ''version'' = JStr ''1.6.0''"
    by (simp_all add: get_def seenD_def seenDown_def seenSelf_def seenV2_def)
  have d: "keep_peer (JNum 1) seenD \<and> getPeerVersion seenD = 1"
    using C4_filter_keeps [where version = "JNum 1" and peer = seenD] vals by simp
  have self: "\<not> keep_peer (JNum 1) seenSelf"
    using C4_filter_keeps [where version = "JNum 1" and peer = seenSelf] vals by simp
  have down: "\<not> keep_peer (JNum 1) seenDown"
    using C4_filter_keeps [where version = "JNum 1" and peer = seenDown] vals by simp
  have v2: "\<not> keep_peer (JNum 1) seenV2 \<and> getPeerVersion seenV2 = 2"
    using C4_filter_keeps [where version = "JNum 1" and peer = seenV2] vals by simp
  let ?keep = "\<lambda>p. get p ''ip'' \<notin> {JStr ''127.0.0.1'', JStr ''::ffff:127.0.0.1'', JStr ''::1''}
                 \<and> (JNum 1 = JNum 1 \<longrightarrow> get p ''status'' = JStr ''OK'' \<or> get p ''status'' = JNum 200)
                 \<and> JNum (if \<not> truthy (get p ''version'')
                              \<or> take 2 (to_string (get p ''version'')) = ''1.'' then 1 else 2)
                     = JNum 1"
  have kept: "filter ?keep ?ps = [seenD]"
    by (simp add: vals)
  have "probe_loop live_world (JNum 1) (peerB # []) 0 [] ?log
          = (let kept = filter ?keep ?ps; merged = mergePeerArrays [] kept
             in if 0 + 1 \<ge> (2::nat) then (0 + 1, merged, ?log @ [peerUrl peerB])
                else probe_loop live_world (JNum 1) [] (0 + 1) merged (?log @ [peerUrl peerB]))"
    using C4_filter_keeps [where version = "JNum 1" and w = live_world and log = ?log
        and candidate = peerB and ps = ?ps and rest = "[]" and checks = 0 and acc = "[]"]
      resp ne
    by blast
  then have first: "probe_loop live_world (JNum 1) [peerB] 0 [] ?log
          = (1, mergePeerArrays [] [seenD], ?log @ [peerUrl peerB])"
    by (simp only: Let_def kept) simp
  have "probe_loop live_world (JNum 1) (peerB # [peerA]) 1 [seenE] ?log
          = (let kept = filter ?keep ?ps; merged = mergePeerArrays [seenE] kept
             in if 1 + 1 \<ge> (2::nat) then (1 + 1, merged, ?log @ [peerUrl peerB])
                else probe_loop live_world (JNum 1) [peerA] (1 + 1) merged (?log @ [peerUrl peerB]))"
    using C4_filter_keeps [where version = "JNum 1" and w = live_world and log = ?log
        and candidate = peerB and ps = ?ps and rest = "[peerA]" and checks = 1 and acc = "[seenE]"]
      resp ne
    by blast
  then have second: "probe_loop live_world (JNum 1) [peerB, peerA] 1 [seenE] ?log
          = (2, mergePeerArrays [seenE] [seenD], ?log @ [peerUrl peerB])"
    by (simp only: Let_def kept) simp
  from first have run1: "probe_loop live_world (JNum 1) [peerB] 0 [] ?log
       = (1, [seenD], [''http://10.0.0.3:4001'', ''http://10.0.0.2:4001''])"
    by (simp only: merge_D seed_urls append.simps)
  from second have run2: "probe_loop live_world (JNum 1) [peerB, peerA] 1 [seenE] ?log
       = (2, [seenE, seenD], [''http://10.0.0.3:4001'', ''http://10.0.0.2:4001''])"
    by (simp only: merge_ED seed_urls append.simps)
  from d self down v2 vals(1,2) resp run1 run2 show ?thesis by blast
qed

section \<open>The candidate list\<close>

text \<open>
  With an empty array as override and a network that has no seed entry, findPeers raises
  no error: the empty array is truthy, so line 40 keeps it, the loop has nothing to
  iterate, and the sorted empty list comes back.
\<close>

theorem C10_empty_override_counterexample:
  "''nonet'' \<notin> dom (initialPeers dead_world)
   \<and> findPeers dead_world ''nonet'' (JNum 1) (Peers []) = Inr ([], [])
   \<and> findPeers dead_world ''nonet'' (JNum 1) (Peers []) \<noteq> Inl TypeError"
  by (simp add: findPeers_def networkPeers_of_def dead_world_def cloneDeep_def by_height_delay_def)

text \<open>
  C10, amended. For a network without seed entry and an override that is an empty
  array, findPeers does not raise UnsupportedNetworkError, the candidate selection keeps
  the empty override, no candidate is probed, and the result is the sort of the empty
  list; no TypeError escapes.
\<close>

theorem C10_empty_override_kept:
  assumes "network \<notin> dom (initialPeers w)"
  shows "findPeers w network version (Peers []) \<noteq> Inl (UnsupportedNetworkError network)
         \<and> networkPeers_of w network (Peers []) = Some []
         \<and> findPeers w network version (Peers []) = Inr (cloneDeep (sortPeers w []), [])"
  by (simp add: findPeers_def networkPeers_of_def)

theorem C10_empty_override_kept_witness:
  "''nonet'' \<notin> dom (initialPeers live_world)
   \<and> networkPeers_of live_world ''nonet'' (Peers []) = Some []
   \<and> findPeers live_world ''nonet'' (JNum 2) (Peers []) = Inr ([], [])"
proof -
  have a: "''nonet'' \<notin> dom (initialPeers live_world)"
    by (simp add: live_world_def dead_world_def)
  have "cloneDeep (sortPeers live_world []) = []"
    by (simp add: cloneDeep_def live_world_def dead_world_def by_height_delay_def)
  with C10_empty_override_kept [OF a, of "JNum 2"] a show ?thesis by simp
qed

text \<open>
  The two checks of lines 36 and 40 do differ on \<open>null\<close>: it is not \<open>undefined\<close>, and it
  is falsy.
\<close>

lemma null_override_TypeError:
  "network \<notin> dom (initialPeers w) \<Longrightarrow> findPeers w network version Null = Inl TypeError"
  by (auto simp: findPeers_def networkPeers_of_def)

section \<open>The order of the probes\<close>

lemma findPeers_ignores_shuffle:
  "findPeers (w\<lparr>shuffle := s\<rparr>) network version peersOverride = findPeers w network version peersOverride"
proof -
  have pl: "probe_loop (w\<lparr>shuffle := s\<rparr>) v cs c acc log = probe_loop w v cs c acc log"
    for v cs c acc log
    by (induction cs arbitrary: c acc log) (simp_all add: Let_def split: sum.splits)
  show ?thesis
    by (simp add: findPeers_def networkPeers_of_def pl Let_def
          split: override.splits option.splits)
qed

text \<open>
  C5. Line 43 calls \<open>shuffle\<close> and drops the array it returns, and lodash's \<open>shuffle\<close>
  leaves its argument as it is: the candidates are probed in the order they were given
  in, whatever the shuffled order is. Here the shuffled order is the reverse one.
\<close>

theorem C5_given_order_probed:
  "shuffle live_world [peerA, peerB, peerC] = [peerC, peerB, peerA]
   \<and> map peerUrl (shuffle live_world [peerA, peerB, peerC])
        = [''http://10.0.0.3:4001'', ''http://10.0.0.2:4001'', ''http://10.0.0.1:4001'']
   \<and> findPeers live_world ''devnet'' (JNum 1) (Peers [peerA, peerB, peerC])
        = Inr ([seenE, seenD],
               [''http://10.0.0.1:4001'', ''http://10.0.0.2:4001'', ''http://10.0.0.3:4001''])"
proof -
  have sh: "shuffle live_world [peerA, peerB, peerC] = [peerC, peerB, peerA]"
    by (simp add: live_world_def dead_world_def)
  have srt: "sortPeers live_world [seenD, seenE] = [seenE, seenD]"
    by (simp add: live_world_def dead_world_def sort_DE)
  have "findPeers live_world ''devnet'' (JNum 1) (Peers [peerA, peerB, peerC])
        = Inr ([seenE, seenD],
               [''http://10.0.0.1:4001'', ''http://10.0.0.2:4001'', ''http://10.0.0.3:4001''])"
    unfolding findPeers_def networkPeers_of_def Let_def
    by (simp add: live_run srt cloneDeep_def del: probe_loop.simps)
  with sh show ?thesis by (simp add: seed_urls)
qed

section \<open>Setting the version\<close>

text \<open>
  The constructor replaces a zero or absent version by 1 (line 193) before it calls
  setVersion, so it does not fail on them.
\<close>

theorem C9_constructor_counterexample:
  "new_ApiClient ''http://10.0.0.1:4003'' (JNum 0)
     = Inr \<lparr>this_http = Some \<lparr>hc_host = ''http://10.0.0.1:4003'', hc_version = JNum 1\<rparr>,
            this_version = JNum 1\<rparr>
   \<and> new_ApiClient ''http://10.0.0.1:4003'' JUndefined
     = Inr \<lparr>this_http = Some \<lparr>hc_host = ''http://10.0.0.1:4003'', hc_version = JNum 1\<rparr>,
            this_version = JNum 1\<rparr>
   \<and> new_ApiClient ''http://10.0.0.1:4003'' (JNum 0) \<noteq> Inl InvalidVersionError"
  by (simp add: new_ApiClient_def setVersion_def setConnection_def)

text \<open>
  C9, amended. setVersion fails with InvalidVersionError on a zero or absent version (on
  any falsy one), and stores a non-zero version in the client and its transport. The
  constructor stores a non-zero version as well, and stores the default 1 for a zero or
  absent version instead of failing.
\<close>

theorem C9_version_setting:
  "setVersion client (JNum 0) = Inl InvalidVersionError
   \<and> setVersion client JUndefined = Inl InvalidVersionError
   \<and> (\<not> truthy version \<longrightarrow> setVersion client version = Inl InvalidVersionError)
   \<and> (n \<noteq> 0 \<and> this_http client = Some h \<longrightarrow>
        setVersion client (JNum n)
          = Inr (client\<lparr>this_version := JNum n, this_http := Some (h\<lparr>hc_version := JNum n\<rparr>)\<rparr>))
   \<and> (n \<noteq> 0 \<longrightarrow>
        new_ApiClient host (JNum n)
          = Inr \<lparr>this_http = Some \<lparr>hc_host = host, hc_version = JNum n\<rparr>, this_version = JNum n\<rparr>)
   \<and> new_ApiClient host (JNum 0)
        = Inr \<lparr>this_http = Some \<lparr>hc_host = host, hc_version = JNum 1\<rparr>, this_version = JNum 1\<rparr>
   \<and> new_ApiClient host JUndefined
        = Inr \<lparr>this_http = Some \<lparr>hc_host = host, hc_version = JNum 1\<rparr>, this_version = JNum 1\<rparr>"
  by (simp add: new_ApiClient_def setVersion_def setConnection_def)

theorem C9_version_setting_witness:
  "setVersion \<lparr>this_http = Some \<lparr>hc_host = ''http://10.0.0.1:4003'', hc_version = JNum 1\<rparr>,
               this_version = JNum 1\<rparr> (JNum 0) = Inl InvalidVersionError
   \<and> setVersion \<lparr>this_http = Some \<lparr>hc_host = ''http://10.0.0.1:4003'', hc_version = JNum 1\<rparr>,
               this_version = JNum 1\<rparr> (JNum 2)
       = Inr \<lparr>this_http = Some \<lparr>hc_host = ''http://10.0.0.1:4003'', hc_version = JNum 2\<rparr>,
              this_version = JNum 2\<rparr>
   \<and> new_ApiClient ''http://10.0.0.1:4003'' (JNum 2)
       = Inr \<lparr>this_http = Some \<lparr>hc_host = ''http://10.0.0.1:4003'', hc_version = JNum 2\<rparr>,
              this_version = JNum 2\<rparr>"
  using C9_version_setting
    [of "\<lparr>this_http = Some \<lparr>hc_host = ''http://10.0.0.1:4003'', hc_version = JNum 1\<rparr>,
          this_version = JNum 1\<rparr>" JUndefined 2 "\<lparr>hc_host = ''http://10.0.0.1:4003'', hc_version = JNum 1\<rparr>"
        "''http://10.0.0.1:4003''"]
  by simp

section \<open>The quorum of the probe loop\<close>

text \<open>One turn of the loop, by whether the response counts as a check.\<close>

lemma probe_loop_step:
  "probe_loop w v (p # ps) c acc log =
     (if counted v (peers_all w log (peerUrl p))
      then (if Suc c \<ge> 2
            then (Suc c,
                  mergePeerArrays acc (filter (keep_peer v)
                    (case responsePeers_of v (peers_all w log (peerUrl p)) of Inr rs \<Rightarrow> rs | Inl e \<Rightarrow> [])),
                  log @ [peerUrl p])
            else probe_loop w v ps (Suc c)
                  (mergePeerArrays acc (filter (keep_peer v)
                    (case responsePeers_of v (peers_all w log (peerUrl p)) of Inr rs \<Rightarrow> rs | Inl e \<Rightarrow> [])))
                  (log @ [peerUrl p]))
      else probe_loop w v ps c acc (log @ [peerUrl p]))"
  by (simp add: counted_def Let_def split: sum.splits)

lemma quorum_not_reached:
  "length (filter (counted v) (responses w log cs)) + c < 2 \<Longrightarrow>
   fst (probe_loop w v cs c acc log) = c + length (filter (counted v) (responses w log cs))
   \<and> snd (snd (probe_loop w v cs c acc log)) = log @ map peerUrl cs"
proof (induction cs arbitrary: c acc log)
  case Nil
  show ?case by simp
next
  case (Cons p ps)
  show ?case
  proof (cases "counted v (peers_all w log (peerUrl p))")
    case True
    with Cons.prems have "length (filter (counted v) (responses w (log @ [peerUrl p]) ps)) + Suc c < 2"
      by simp
    from Cons.IH [OF this] True Cons.prems show ?thesis
      by (simp only: probe_loop_step) simp
  next
    case False
    with Cons.prems have "length (filter (counted v) (responses w (log @ [peerUrl p]) ps)) + c < 2"
      by simp
    from Cons.IH [OF this] False show ?thesis
      by (simp only: probe_loop_step) simp
  qed
qed

lemma quorum_reached:
  "responses w log cs = r1 @ x # r2 \<Longrightarrow> length (filter (counted v) r1) + c = 1 \<Longrightarrow>
   counted v x \<Longrightarrow>
   fst (probe_loop w v cs c acc log) = 2
   \<and> snd (snd (probe_loop w v cs c acc log)) = log @ map peerUrl (take (Suc (length r1)) cs)"
proof (induction cs arbitrary: c acc log r1)
  case Nil
  then show ?case by simp
next
  case (Cons p ps)
  note split = Cons.prems(1) and one = Cons.prems(2) and hit = Cons.prems(3)
  note IH = Cons.IH
  let ?r = "peers_all w log (peerUrl p)"
  show ?case
  proof (cases r1)
    assume first: "r1 = []"
    with split one have "x = ?r" "c = 1" by simp_all
    with hit first show ?thesis
      by (simp only: probe_loop_step) simp
  next
    fix y r1'
    assume later: "r1 = y # r1'"
    with split have y: "y = ?r"
      and rest: "responses w (log @ [peerUrl p]) ps = r1' @ x # r2"
      by simp_all
    show ?thesis
    proof (cases "counted v ?r")
      case True
      with one y later have c0: "c = 0"
        and n: "length (filter (counted v) r1') + Suc c = 1"
        by simp_all
      from IH [OF rest n hit] True c0 later show ?thesis
        by (simp only: probe_loop_step) simp
    next
      case False
      with one y later have n: "length (filter (counted v) r1') + c = 1"
        by simp
      from IH [OF rest n hit] False later show ?thesis
        by (simp only: probe_loop_step) simp
    qed
  qed
qed

lemma yields_filtered_counted: "yields_filtered v r \<Longrightarrow> counted v r"
  by (auto simp: yields_filtered_def counted_def split: sum.splits)

lemma selfish_responses:
  "responses selfish_world [] [peerA, peerB, peerC]
     = [Resolved (v1_body [seenSelf]), Resolved (v1_body [seenSelf]), Resolved (v1_body [seenSelf])]"
  by (simp add: selfish_world_def live_world_def dead_world_def)

lemma selfish_counted:
  "counted (JNum 1) (Resolved (v1_body [seenSelf]))"
  "\<not> yields_filtered (JNum 1) (Resolved (v1_body [seenSelf]))"
  by (simp_all add: counted_def yields_filtered_def responsePeers_of_def v1_body_def kept_examples)

text \<open>
  Three candidates whose nodes all report the local address only: no probe yields a peer
  that passes the filter, and still the loop stops after the second candidate, because
  line 71 tests the length of the list before line 73 filters it.
\<close>

theorem C2_quorum_counterexample:
  "\<not> yields_filtered (JNum 1) (peers_all selfish_world [] (peerUrl peerA))
   \<and> \<not> yields_filtered (JNum 1) (peers_all selfish_world [peerUrl peerA] (peerUrl peerB))
   \<and> \<not> yields_filtered (JNum 1) (peers_all selfish_world [peerUrl peerA, peerUrl peerB] (peerUrl peerC))
   \<and> probe_loop selfish_world (JNum 1) [peerA, peerB, peerC] 0 [] []
        = (2, [], [peerUrl peerA, peerUrl peerB])
   \<and> [peerUrl peerA, peerUrl peerB] \<noteq> map peerUrl [peerA, peerB, peerC]"
proof -
  have always: "peers_all selfish_world log url = Resolved (v1_body [seenSelf])" for log url
    by (simp add: selfish_world_def live_world_def dead_world_def)
  have none: "\<not> yields_filtered (JNum 1) (peers_all selfish_world log url)" for log url
    by (simp only: always selfish_counted not_False_eq_True)
  have run: "probe_loop selfish_world (JNum 1) [peerA, peerB, peerC] 0 [] []
        = (2, [], [peerUrl peerA, peerUrl peerB])"
    by (simp only: selfish_run seed_urls)
  have "[peerUrl peerA, peerUrl peerB] \<noteq> map peerUrl [peerA, peerB, peerC]"
    by simp
  with none run show ?thesis by blast
qed

text \<open>
  C2, amended. A probe counts as one check exactly when its response is accepted with a
  non-empty peer list, before the filter is applied; a probe with a non-empty filtered
  list always counts, and one whose filtered list is empty counts as well when the
  unfiltered list is not empty. The loop stops right after the second probe that counts,
  with 2 checks and the later candidates untried; with fewer than two such probes it
  visits every candidate.
\<close>

theorem C2_quorum_stop:
  "(counted version response \<longleftrightarrow>
      (\<exists>ps. responsePeers_of version response = Inr ps \<and> ps \<noteq> []))
   \<and> (yields_filtered version response \<longrightarrow> counted version response)
   \<and> (length (filter (counted version) (responses w [] candidates)) < 2 \<longrightarrow>
        fst (probe_loop w version candidates 0 [] [])
          = length (filter (counted version) (responses w [] candidates))
        \<and> snd (snd (probe_loop w version candidates 0 [] [])) = map peerUrl candidates)
   \<and> (responses w [] candidates = before @ second # untried
        \<and> length (filter (counted version) before) = 1 \<and> counted version second \<longrightarrow>
        fst (probe_loop w version candidates 0 [] []) = 2
        \<and> snd (snd (probe_loop w version candidates 0 [] []))
            = map peerUrl (take (Suc (length before)) candidates))"
proof (intro conjI impI)
  show "counted version response \<longleftrightarrow>
      (\<exists>ps. responsePeers_of version response = Inr ps \<and> ps \<noteq> [])"
    by (auto simp: counted_def split: sum.splits)
next
  assume "yields_filtered version response"
  then show "counted version response" by (rule yields_filtered_counted)
next
  assume few: "length (filter (counted version) (responses w [] candidates)) < 2"
  then have "length (filter (counted version) (responses w [] candidates)) + 0 < 2" by simp
  from quorum_not_reached [OF this, of "[]"]
  show "fst (probe_loop w version candidates 0 [] [])
          = length (filter (counted version) (responses w [] candidates))"
    and "snd (snd (probe_loop w version candidates 0 [] [])) = map peerUrl candidates"
    by simp_all
next
  assume h: "responses w [] candidates = before @ second # untried
        \<and> length (filter (counted version) before) = 1 \<and> counted version second"
  then have a: "responses w [] candidates = before @ second # untried"
    and b: "length (filter (counted version) before) + 0 = 1"
    and c: "counted version second" by simp_all
  from quorum_reached [OF a b c, of "[]"]
  show "fst (probe_loop w version candidates 0 [] []) = 2"
    and "snd (snd (probe_loop w version candidates 0 [] []))
            = map peerUrl (take (Suc (length before)) candidates)"
    by simp_all
qed

theorem C2_quorum_stop_witness:
  "responses selfish_world [] [peerA, peerB, peerC]
     = [Resolved (v1_body [seenSelf])] @ Resolved (v1_body [seenSelf]) # [Resolved (v1_body [seenSelf])]
   \<and> length (filter (counted (JNum 1)) [Resolved (v1_body [seenSelf])]) = 1
   \<and> counted (JNum 1) (Resolved (v1_body [seenSelf]))
   \<and> fst (probe_loop selfish_world (JNum 1) [peerA, peerB, peerC] 0 [] []) = 2
   \<and> snd (snd (probe_loop selfish_world (JNum 1) [peerA, peerB, peerC] 0 [] []))
       = [''http://10.0.0.1:4001'', ''http://10.0.0.2:4001'']"
proof -
  have a: "responses selfish_world [] [peerA, peerB, peerC]
     = [Resolved (v1_body [seenSelf])] @ Resolved (v1_body [seenSelf]) # [Resolved (v1_body [seenSelf])]"
    by (simp only: selfish_responses append.simps)
  have b: "length (filter (counted (JNum 1)) [Resolved (v1_body [seenSelf])]) = 1"
    by (simp add: selfish_counted)
  have c: "counted (JNum 1) (Resolved (v1_body [seenSelf]))"
    by (rule selfish_counted)
  from C2_quorum_stop [of "JNum 1" "Resolved (v1_body [seenSelf])" selfish_world "[peerA, peerB, peerC]"
      "[Resolved (v1_body [seenSelf])]" "Resolved (v1_body [seenSelf])" "[Resolved (v1_body [seenSelf])]"]
    a b c
  have "fst (probe_loop selfish_world (JNum 1) [peerA, peerB, peerC] 0 [] []) = 2
        \<and> snd (snd (probe_loop selfish_world (JNum 1) [peerA, peerB, peerC] 0 [] []))
            = map peerUrl (take (Suc (length [Resolved (v1_body [seenSelf])])) [peerA, peerB, peerC])"
    by blast
  then show ?thesis using a b c by (simp add: seed_urls)
qed

section \<open>The attempts of fetchPeerConfig\<close>

text \<open>
  Where the host is an address without a colon before a digit, then a colon and the
  digits of the port, the replacement of line 106 puts 4040 in the place of the port.
\<close>

lemma walletApiHost_port:
  assumes "colon_digit_free pre" and "port \<noteq> []" and "\<forall>c\<in>set port. is_digit c"
      and "rest = [] \<or> \<not> is_digit (hd rest)"
  shows "walletApiHost (pre @ CHR '':'' # port @ rest) = pre @ '':4040'' @ rest"
  using assms(1)
proof (induction pre)
  case Nil
  have tw: "takeWhile is_digit rest = []" using assms(4) by (cases rest) auto
  have "takeWhile is_digit (port @ rest) = port"
    using assms(3) tw by (simp add: takeWhile_append2)
  moreover have "dropWhile is_digit rest = rest" using assms(4) by (cases rest) auto
  then have "dropWhile is_digit (port @ rest) = rest"
    using assms(3) by (simp add: dropWhile_append2)
  ultimately show ?case using assms(2) by simp
next
  case (Cons c cs)
  then have free: "colon_digit_free cs" and here: "\<not> (c = CHR '':'' \<and> cs \<noteq> [] \<and> is_digit (hd cs))"
    by simp_all
  have "\<not> is_digit CHR '':''" by (simp add: is_digit_def)
  with here have "\<not> (c = CHR '':'' \<and> takeWhile is_digit (cs @ CHR '':'' # port @ rest) \<noteq> [])"
    by (cases cs) auto
  with Cons.IH [OF free] show ?case by auto
qed

lemma attempt_fails:
  "fails (sendRequest w log a) \<Longrightarrow> attempt_loop w (a # rest) log = attempt_loop w rest (log @ [a])"
  by (simp add: fails_def split: outcome.splits)

lemma attempt_answers:
  "sendRequest w log a = Resolved d \<Longrightarrow> truthy d \<Longrightarrow>
   attempt_loop w (a # rest) log = (prop_of d ''data'', log @ [a])"
  by simp

lemma wallet_example: "walletApiHost ''http://10.0.0.5:4001'' = ''http://10.0.0.5:4040''"
  by (simp add: is_digit_def)

text \<open>
  The order of the attempts, for every host: the given host at /config, the host that
  line 106 derives at /config, and that host with no endpoint. The data payload of the
  first attempt with a non-empty (truthy) response is returned and no later attempt is
  made; a rejected request and an empty response are swallowed and the next attempt is
  tried; when all three fail the result is null. For a host whose part before the port
  has no colon before a digit, the derived host is the same address with port 4040.
\<close>

theorem fetchPeerConfig_attempts:
  "attempts host = [(host, Some ''/config''), (walletApiHost host, Some ''/config''), (walletApiHost host, None)]
   \<and> (colon_digit_free pre \<and> port \<noteq> [] \<and> (\<forall>c\<in>set port. is_digit c)
        \<and> (rest = [] \<or> \<not> is_digit (hd rest)) \<longrightarrow>
        walletApiHost (pre @ CHR '':'' # port @ rest) = pre @ '':4040'' @ rest)
   \<and> (sendRequest w log (host, Some ''/config'') = Resolved d \<and> truthy d \<longrightarrow>
        fetchPeerConfig w host log = (prop_of d ''data'', log @ [(host, Some ''/config'')]))
   \<and> (fails (sendRequest w log (host, Some ''/config''))
        \<and> sendRequest w (log @ [(host, Some ''/config'')]) (walletApiHost host, Some ''/config'') = Resolved d
        \<and> truthy d \<longrightarrow>
        fetchPeerConfig w host log
          = (prop_of d ''data'', log @ [(host, Some ''/config''), (walletApiHost host, Some ''/config'')]))
   \<and> (fails (sendRequest w log (host, Some ''/config''))
        \<and> fails (sendRequest w (log @ [(host, Some ''/config'')]) (walletApiHost host, Some ''/config''))
        \<and> sendRequest w (log @ [(host, Some ''/config''), (walletApiHost host, Some ''/config'')])
              (walletApiHost host, None) = Resolved d
        \<and> truthy d \<longrightarrow>
        fetchPeerConfig w host log
          = (prop_of d ''data'',
             log @ [(host, Some ''/config''), (walletApiHost host, Some ''/config''), (walletApiHost host, None)]))
   \<and> (fails (sendRequest w log (host, Some ''/config''))
        \<and> fails (sendRequest w (log @ [(host, Some ''/config'')]) (walletApiHost host, Some ''/config''))
        \<and> fails (sendRequest w (log @ [(host, Some ''/config''), (walletApiHost host, Some ''/config'')])
              (walletApiHost host, None)) \<longrightarrow>
        fetchPeerConfig w host log
          = (JNull,
             log @ [(host, Some ''/config''), (walletApiHost host, Some ''/config''), (walletApiHost host, None)]))"
proof (intro conjI impI)
  show "attempts host = [(host, Some ''/config''), (walletApiHost host, Some ''/config''), (walletApiHost host, None)]"
    by (simp add: attempts_def)
next
  assume "colon_digit_free pre \<and> port \<noteq> [] \<and> (\<forall>c\<in>set port. is_digit c)
        \<and> (rest = [] \<or> \<not> is_digit (hd rest))"
  then show "walletApiHost (pre @ CHR '':'' # port @ rest) = pre @ '':4040'' @ rest"
    by (simp add: walletApiHost_port)
next
  assume "sendRequest w log (host, Some ''/config'') = Resolved d \<and> truthy d"
  then show "fetchPeerConfig w host log = (prop_of d ''data'', log @ [(host, Some ''/config'')])"
    by (simp add: fetchPeerConfig_def attempts_def)
next
  assume "fails (sendRequest w log (host, Some ''/config''))
        \<and> sendRequest w (log @ [(host, Some ''/config'')]) (walletApiHost host, Some ''/config'') = Resolved d
        \<and> truthy d"
  then show "fetchPeerConfig w host log
          = (prop_of d ''data'', log @ [(host, Some ''/config''), (walletApiHost host, Some ''/config'')])"
    by (simp add: fetchPeerConfig_def attempts_def attempt_fails attempt_answers del: attempt_loop.simps)
next
  assume "fails (sendRequest w log (host, Some ''/config''))
        \<and> fails (sendRequest w (log @ [(host, Some ''/config'')]) (walletApiHost host, Some ''/config''))
        \<and> sendRequest w (log @ [(host, Some ''/config''), (walletApiHost host, Some ''/config'')])
              (walletApiHost host, None) = Resolved d
        \<and> truthy d"
  then show "fetchPeerConfig w host log
          = (prop_of d ''data'',
             log @ [(host, Some ''/config''), (walletApiHost host, Some ''/config''), (walletApiHost host, None)])"
    by (simp add: fetchPeerConfig_def attempts_def attempt_fails attempt_answers del: attempt_loop.simps)
next
  assume "fails (sendRequest w log (host, Some ''/config''))
        \<and> fails (sendRequest w (log @ [(host, Some ''/config'')]) (walletApiHost host, Some ''/config''))
        \<and> fails (sendRequest w (log @ [(host, Some ''/config''), (walletApiHost host, Some ''/config'')])
              (walletApiHost host, None))"
  then show "fetchPeerConfig w host log
          = (JNull,
             log @ [(host, Some ''/config''), (walletApiHost host, Some ''/config''), (walletApiHost host, None)])"
    by (simp add: fetchPeerConfig_def attempts_def attempt_fails del: attempt_loop.simps(2))
qed

theorem fetchPeerConfig_attempts_example:
  "colon_digit_free ''http://10.0.0.5''
   \<and> walletApiHost (''http://10.0.0.5'' @ CHR '':'' # ''4001'' @ []) = ''http://10.0.0.5'' @ '':4040'' @ []
   \<and> fails (sendRequest live_world [] (''http://10.0.0.5:4001'', Some ''/config''))
   \<and> fetchPeerConfig live_world ''http://10.0.0.5:4001'' []
       = (config_doc,
          [(''http://10.0.0.5:4001'', Some ''/config''), (''http://10.0.0.5:4040'', Some ''/config'')])
   \<and> fetchPeerConfig dead_world ''http://10.0.0.5:4001'' []
       = (JNull,
          [(''http://10.0.0.5:4001'', Some ''/config''), (''http://10.0.0.5:4040'', Some ''/config''),
           (''http://10.0.0.5:4040'', None)])"
proof -
  have shape: "colon_digit_free ''http://10.0.0.5''" "''4001'' \<noteq> []"
    "\<forall>c\<in>set ''4001''. is_digit c" "[] = [] \<or> \<not> is_digit (hd [])"
    by (simp_all add: is_digit_def)
  have f1: "fails (sendRequest live_world [] (''http://10.0.0.5:4001'', Some ''/config''))"
    by (simp add: fails_def live_world_def dead_world_def)
  have a2: "sendRequest live_world ([] @ [(''http://10.0.0.5:4001'', Some ''/config'')])
              (walletApiHost ''http://10.0.0.5:4001'', Some ''/config'')
            = Resolved (JObj [(''data'', config_doc)])"
    by (simp only: wallet_example) (simp add: live_world_def dead_world_def)
  have t: "truthy (JObj [(''data'', config_doc)])" by simp
  have dead: "fails (sendRequest dead_world log req)" for log req
    by (simp add: fails_def dead_world_def)
  note live = fetchPeerConfig_attempts
    [of "''http://10.0.0.5:4001''" "''http://10.0.0.5''" "''4001''" "[]" live_world "[]"
        "JObj [(''data'', config_doc)]"]
  note none = fetchPeerConfig_attempts
    [of "''http://10.0.0.5:4001''" "''http://10.0.0.5''" "''4001''" "[]" dead_world "[]" JNull]
  have w: "walletApiHost (''http://10.0.0.5'' @ CHR '':'' # ''4001'' @ []) = ''http://10.0.0.5'' @ '':4040'' @ []"
    using live shape by blast
  have r1: "fetchPeerConfig live_world ''http://10.0.0.5:4001'' []
       = (prop_of (JObj [(''data'', config_doc)]) ''data'',
          [] @ [(''http://10.0.0.5:4001'', Some ''/config''),
                (walletApiHost ''http://10.0.0.5:4001'', Some ''/config'')])"
    using live f1 a2 t by blast
  have r2: "fetchPeerConfig dead_world ''http://10.0.0.5:4001'' []
       = (JNull,
          [] @ [(''http://10.0.0.5:4001'', Some ''/config''),
                (walletApiHost ''http://10.0.0.5:4001'', Some ''/config''),
                (walletApiHost ''http://10.0.0.5:4001'', None)])"
    using none dead by blast
  have r1': "fetchPeerConfig live_world ''http://10.0.0.5:4001'' []
       = (config_doc,
          [(''http://10.0.0.5:4001'', Some ''/config''), (''http://10.0.0.5:4040'', Some ''/config'')])"
    using r1 by (simp only: wallet_example) (simp add: get_def)
  have r2': "fetchPeerConfig dead_world ''http://10.0.0.5:4001'' []
       = (JNull,
          [(''http://10.0.0.5:4001'', Some ''/config''), (''http://10.0.0.5:4040'', Some ''/config''),
           (''http://10.0.0.5:4040'', None)])"
    using r2 by (simp only: wallet_example) simp
  from shape(1) w f1 r1' r2' show ?thesis by blast
qed

lemma fetch_dead:
  "fetchPeerConfig dead_world host log
     = (JNull, log @ [(host, Some ''/config''), (walletApiHost host, Some ''/config''),
                      (walletApiHost host, None)])"
  by (simp add: fetchPeerConfig_def attempts_def dead_world_def)

lemma mapped_peer:
  "peerHost seenMapped = ''http://::ffff:10.0.0.5:4003''"
  "keep_peer (JNum 2) seenMapped"
  by (simp_all add: peerHost_def seenMapped_def get_def digits_of.simps digit_char_def
        keep_peer_def getPeerVersion_def selfIps_def)

text \<open>
  C6. The second and third attempt are meant for the given address on the alternate
  port 4040. Line 106 replaces the leftmost colon-and-digits group of the host, and in
  an IPv6 address that group lies inside the address: for the host http://[::1]:4003, and
  for the host selectApiPeer builds for the peer ::ffff:10.0.0.5 with port 4003 (a peer
  that the version-2 filter keeps), the port stays as it is and the address is changed,
  so both fallback requests go to another host.
\<close>

theorem C6_port_kept_on_ipv6_host:
  "walletApiHost ''http://[::1]:4003'' = ''http://[::4040]:4003''
   \<and> attempts ''http://[::1]:4003''
       = [(''http://[::1]:4003'', Some ''/config''),
          (''http://[::4040]:4003'', Some ''/config''),
          (''http://[::4040]:4003'', None)]
   \<and> walletApiHost ''http://[::1]:4003'' \<noteq> ''http://[::1]:4040''
   \<and> keep_peer (JNum 2) seenMapped
   \<and> peerHost seenMapped = ''http://::ffff:10.0.0.5:4003''
   \<and> walletApiHost (peerHost seenMapped) = ''http://::ffff:4040.0.0.5:4003''
   \<and> walletApiHost (peerHost seenMapped) \<noteq> ''http://::ffff:10.0.0.5:4040''
   \<and> snd (fetchPeerConfig dead_world (peerHost seenMapped) [])
       = [(''http://::ffff:10.0.0.5:4003'', Some ''/config''),
          (''http://::ffff:4040.0.0.5:4003'', Some ''/config''),
          (''http://::ffff:4040.0.0.5:4003'', None)]"
proof -
  have w1: "walletApiHost ''http://[::1]:4003'' = ''http://[::4040]:4003''"
    by (simp add: is_digit_def)
  have w2: "walletApiHost ''http://::ffff:10.0.0.5:4003'' = ''http://::ffff:4040.0.0.5:4003''"
    by (simp add: is_digit_def)
  have a: "attempts ''http://[::1]:4003''
       = [(''http://[::1]:4003'', Some ''/config''),
          (''http://[::4040]:4003'', Some ''/config''),
          (''http://[::4040]:4003'', None)]"
    by (simp only: attempts_def w1)
  have f: "snd (fetchPeerConfig dead_world (peerHost seenMapped) [])
       = [(''http://::ffff:10.0.0.5:4003'', Some ''/config''),
          (''http://::ffff:4040.0.0.5:4003'', Some ''/config''),
          (''http://::ffff:4040.0.0.5:4003'', None)]"
    by (simp only: mapped_peer fetch_dead w2 snd_conv append.simps)
  have n1: "walletApiHost ''http://[::1]:4003'' \<noteq> ''http://[::1]:4040''"
    by (simp only: w1) simp
  have n2: "walletApiHost (peerHost seenMapped) \<noteq> ''http://::ffff:10.0.0.5:4040''"
    by (simp only: mapped_peer w2) simp
  have e: "walletApiHost (peerHost seenMapped) = ''http://::ffff:4040.0.0.5:4003''"
    by (simp only: mapped_peer w2)
  from w1 a n1 mapped_peer e n2 f show ?thesis by blast
qed

section \<open>The choice of selectApiPeer\<close>

lemma selectApiPeer_find:
  "fst (selectApiPeer w peers log) =
     (case find (\<lambda>(peer, config). api_enabled config) (zip peers (fetched w log peers)) of
        None \<Rightarrow> None
      | Some (peer, config) \<Rightarrow> Some (spread peer [(''port'', api_port config)]))"
  by (induction peers arbitrary: log) (auto split: prod.splits)

lemma selectApiPeer_first:
  "selectApiPeer w before log = (None, log1) \<Longrightarrow>
   fetchPeerConfig w (peerHost peer) log1 = (config, log2) \<Longrightarrow> api_enabled config \<Longrightarrow>
   selectApiPeer w (before @ peer # after) log
     = (Some (spread peer [(''port'', api_port config)]), log2)"
  by (induction before arbitrary: log) (auto split: prod.splits if_splits)

lemma selectApiPeer_none:
  "\<forall>config\<in>set (fetched w log peers). \<not> api_enabled config \<Longrightarrow>
   fst (selectApiPeer w peers log) = None"
  by (induction peers arbitrary: log) (auto split: prod.splits)

lemma get_port_override:
  "get (spread peer [(''port'', v)]) ''port'' = v"
  "k \<noteq> ''port'' \<Longrightarrow> get (spread peer [(''port'', v)]) k = get peer k"
  by (simp_all add: spread_def get_def update_conv')

lemma truthy_prop_of: "truthy (prop_of v k) \<Longrightarrow> \<exists>ob. v = JObj ob"
  by (cases v) simp_all

lemma api_enabled_reads:
  "api_enabled config \<longleftrightarrow>
     (\<exists>doc plugins plugin.
        config = JObj doc \<and> get doc ''plugins'' = JObj plugins
        \<and> get plugins ''@arkecosystem/core-api'' = JObj plugin \<and> truthy (get plugin ''enabled''))"
proof
  assume en: "api_enabled config"
  then have t3: "truthy (prop_of (prop_of (prop_of config ''plugins'') core_api) ''enabled'')"
    and t2: "truthy (prop_of (prop_of config ''plugins'') core_api)"
    and t1: "truthy (prop_of config ''plugins'')"
    by (simp_all add: api_enabled_def)
  from t1 obtain doc where c: "config = JObj doc" using truthy_prop_of by blast
  from t2 obtain plugins where p: "prop_of config ''plugins'' = JObj plugins"
    using truthy_prop_of by blast
  from t3 obtain plugin where q: "prop_of (prop_of config ''plugins'') core_api = JObj plugin"
    using truthy_prop_of by blast
  from c p q t3 show "\<exists>doc plugins plugin.
        config = JObj doc \<and> get doc ''plugins'' = JObj plugins
        \<and> get plugins ''@arkecosystem/core-api'' = JObj plugin \<and> truthy (get plugin ''enabled'')"
    by (simp add: core_api_def)
next
  assume "\<exists>doc plugins plugin.
        config = JObj doc \<and> get doc ''plugins'' = JObj plugins
        \<and> get plugins ''@arkecosystem/core-api'' = JObj plugin \<and> truthy (get plugin ''enabled'')"
  then show "api_enabled config"
    by (auto simp: api_enabled_def core_api_def)
qed

lemma api_port_reads:
  "config = JObj doc \<Longrightarrow> get doc ''plugins'' = JObj plugins \<Longrightarrow>
   get plugins ''@arkecosystem/core-api'' = JObj plugin \<Longrightarrow>
   api_port config = get plugin ''port''"
  by (simp add: api_port_def core_api_def)

text \<open>
  C7. selectApiPeer goes through the peers in the given order, fetches the configuration
  of each at its host http://ip:port, and returns the first one whose configuration is
  an object with a \<open>plugins\<close> object that has the \<open>@arkecosystem/core-api\<close> plugin
  with a truthy \<open>enabled\<close> field. The peer comes back as a copy whose port is the
  \<open>port\<close> field of that plugin and whose other fields are unchanged. The log it returns
  ends with the requests for that peer: the peers after it are not asked. On the empty
  list, and when no fetched configuration enables the plugin, the result is null.
\<close>

theorem C7_selectApiPeer_first_enabled:
  "fst (selectApiPeer w peers log) =
     (case find (\<lambda>(peer, config). api_enabled config) (zip peers (fetched w log peers)) of
        None \<Rightarrow> None
      | Some (peer, config) \<Rightarrow> Some (spread peer [(''port'', api_port config)]))
   \<and> fetched w log [] = []
   \<and> fetched w log (peer # rest)
       = fst (fetchPeerConfig w (peerHost peer) log)
         # fetched w (snd (fetchPeerConfig w (peerHost peer) log)) rest
   \<and> peerHost peer = ''http://'' @ to_string (get peer ''ip'') @ '':'' @ to_string (get peer ''port'')
   \<and> (api_enabled config \<longleftrightarrow>
        (\<exists>doc plugins plugin.
           config = JObj doc \<and> get doc ''plugins'' = JObj plugins
           \<and> get plugins ''@arkecosystem/core-api'' = JObj plugin
           \<and> truthy (get plugin ''enabled'')))
   \<and> (config = JObj document \<and> get document ''plugins'' = JObj table
        \<and> get table ''@arkecosystem/core-api'' = JObj entry \<longrightarrow>
        api_port config = get entry ''port'')
   \<and> (selectApiPeer w before log = (None, log1)
        \<and> fetchPeerConfig w (peerHost peer) log1 = (config, log2) \<and> api_enabled config \<longrightarrow>
        selectApiPeer w (before @ peer # after) log
          = (Some (spread peer [(''port'', api_port config)]), log2))
   \<and> get (spread peer [(''port'', api_port config)]) ''port'' = api_port config
   \<and> (k \<noteq> ''port'' \<longrightarrow> get (spread peer [(''port'', api_port config)]) k = get peer k)
   \<and> selectApiPeer w [] log = (None, log)
   \<and> ((\<forall>c\<in>set (fetched w log peers). \<not> api_enabled c) \<longrightarrow>
        fst (selectApiPeer w peers log) = None)"
proof (intro conjI impI)
  show "fst (selectApiPeer w peers log) =
     (case find (\<lambda>(peer, config). api_enabled config) (zip peers (fetched w log peers)) of
        None \<Rightarrow> None
      | Some (peer, config) \<Rightarrow> Some (spread peer [(''port'', api_port config)]))"
    by (rule selectApiPeer_find)
  show "fetched w log [] = []" by simp
  show "fetched w log (peer # rest)
       = fst (fetchPeerConfig w (peerHost peer) log)
         # fetched w (snd (fetchPeerConfig w (peerHost peer) log)) rest"
    by (simp split: prod.splits)
  show "peerHost peer = ''http://'' @ to_string (get peer ''ip'') @ '':'' @ to_string (get peer ''port'')"
    by (simp add: peerHost_def)
  show "api_enabled config \<longleftrightarrow>
        (\<exists>doc plugins plugin.
           config = JObj doc \<and> get doc ''plugins'' = JObj plugins
           \<and> get plugins ''@arkecosystem/core-api'' = JObj plugin
           \<and> truthy (get plugin ''enabled''))"
    by (rule api_enabled_reads)
  show "api_port config = get entry ''port''"
    if "config = JObj document \<and> get document ''plugins'' = JObj table
        \<and> get table ''@arkecosystem/core-api'' = JObj entry"
    using that by (simp add: api_port_reads)
  show "selectApiPeer w (before @ peer # after) log
          = (Some (spread peer [(''port'', api_port config)]), log2)"
    if "selectApiPeer w before log = (None, log1)
        \<and> fetchPeerConfig w (peerHost peer) log1 = (config, log2) \<and> api_enabled config"
    using that by (simp add: selectApiPeer_first)
  show "get (spread peer [(''port'', api_port config)]) ''port'' = api_port config"
    by (rule get_port_override)
  show "get (spread peer [(''port'', api_port config)]) k = get peer k" if "k \<noteq> ''port''"
    using that by (rule get_port_override)
  show "selectApiPeer w [] log = (None, log)" by simp
  show "fst (selectApiPeer w peers log) = None"
    if "\<forall>c\<in>set (fetched w log peers). \<not> api_enabled c"
    using that by (rule selectApiPeer_none)
qed

lemma example_hosts:
  "peerHost seenD = ''http://10.0.0.4:4001''"
  "peerHost seenE = ''http://10.0.0.5:4001''"
  "peerHost peerA = ''http://10.0.0.1:4001''"
  "peerUrl seenD = ''http://10.0.0.4:4001''"
  "peerUrl seenE = ''http://10.0.0.5:4001''"
  by (simp_all add: peerHost_def peerUrl_def seenD_def seenE_def peerA_def get_def digits_of.simps
        digit_char_def)

lemma example_configs:
  "api_enabled config_doc"
  "api_enabled other_doc"
  "\<not> api_enabled disabled_doc"
  "\<not> api_enabled (JObj [(''plugins'', JObj [])])"
  "\<not> api_enabled JNull"
  "api_port config_doc = JNum 4003"
  "api_port other_doc = JNum 4103"
  by (simp_all add: api_enabled_def api_port_def config_doc_def other_doc_def disabled_doc_def
        core_api_def get_def)

lemma fetch_D:
  "fetchPeerConfig live_world ''http://10.0.0.4:4001'' log
     = (disabled_doc, log @ [(''http://10.0.0.4:4001'', Some ''/config'')])"
  by (simp add: fetchPeerConfig_def attempts_def live_world_def dead_world_def get_def is_digit_def)

lemma fetch_E:
  "fetchPeerConfig live_world ''http://10.0.0.5:4001'' log
     = (config_doc, log @ [(''http://10.0.0.5:4001'', Some ''/config''),
                           (''http://10.0.0.5:4040'', Some ''/config'')])"
  by (simp add: fetchPeerConfig_def attempts_def live_world_def dead_world_def get_def is_digit_def)

lemma fetch_A:
  "fetchPeerConfig live_world ''http://10.0.0.1:4001'' log
     = (other_doc, log @ [(''http://10.0.0.1:4001'', Some ''/config''),
                          (''http://10.0.0.1:4040'', Some ''/config''),
                          (''http://10.0.0.1:4040'', None)])"
  by (simp add: fetchPeerConfig_def attempts_def live_world_def dead_world_def get_def is_digit_def)

lemma port_E:
  "spread seenE [(''port'', JNum 4003)]
     = [(''ip'', JStr ''10.0.0.5''), (''port'', JNum 4003), (''status'', JNum 200),
        (''height'', JNum 120), (''delay'', JNum 35)]"
  by (simp add: spread_def seenE_def)

lemma port_A:
  "spread peerA [(''port'', JNum 4103)] = [(''ip'', JStr ''10.0.0.1''), (''port'', JNum 4103)]"
  by (simp add: spread_def peerA_def)

theorem C7_selectApiPeer_first_enabled_witness:
  "selectApiPeer live_world [seenD] [] = (None, [(''http://10.0.0.4:4001'', Some ''/config'')])
   \<and> fetched live_world [] [seenD, peerA] = [disabled_doc, other_doc]
   \<and> \<not> api_enabled disabled_doc
   \<and> get [(''enabled'', JBool False), (''port'', JNum 4004)] ''enabled'' = JBool False
   \<and> fetchPeerConfig live_world (peerHost seenE) [(''http://10.0.0.4:4001'', Some ''/config'')]
       = (config_doc,
          [(''http://10.0.0.4:4001'', Some ''/config''), (''http://10.0.0.5:4001'', Some ''/config''),
           (''http://10.0.0.5:4040'', Some ''/config'')])
   \<and> api_enabled config_doc
   \<and> api_port config_doc = JNum 4003
   \<and> selectApiPeer live_world [seenD, seenE, peerA] []
       = (Some [(''ip'', JStr ''10.0.0.5''), (''port'', JNum 4003), (''status'', JNum 200),
                (''height'', JNum 120), (''delay'', JNum 35)],
          [(''http://10.0.0.4:4001'', Some ''/config''), (''http://10.0.0.5:4001'', Some ''/config''),
           (''http://10.0.0.5:4040'', Some ''/config'')])
   \<and> api_port other_doc = JNum 4103
   \<and> fst (selectApiPeer live_world [seenD, peerA] [])
       = Some [(''ip'', JStr ''10.0.0.1''), (''port'', JNum 4103)]
   \<and> fst (selectApiPeer dead_world [seenD, seenE, peerA] []) = None"
proof -
  note c7 = C7_selectApiPeer_first_enabled
  note c2 = conjunct2
  note find_part = c7 [THEN conjunct1]
  note enabled_part = c7 [THEN c2, THEN c2, THEN c2, THEN c2, THEN conjunct1]
  note port_part = c7 [THEN c2, THEN c2, THEN c2, THEN c2, THEN c2, THEN conjunct1, THEN mp]
  note first_part =
    c7 [THEN c2, THEN c2, THEN c2, THEN c2, THEN c2, THEN c2, THEN conjunct1, THEN mp]
  note none_part =
    c7 [THEN c2, THEN c2, THEN c2, THEN c2, THEN c2, THEN c2, THEN c2, THEN c2, THEN c2, THEN c2,
        THEN mp]
  have d: "selectApiPeer live_world [seenD] [] = (None, [(''http://10.0.0.4:4001'', Some ''/config'')])"
    by (simp add: example_hosts fetch_D example_configs)
  have e: "fetchPeerConfig live_world (peerHost seenE) [(''http://10.0.0.4:4001'', Some ''/config'')]
       = (config_doc,
          [(''http://10.0.0.4:4001'', Some ''/config''), (''http://10.0.0.5:4001'', Some ''/config''),
           (''http://10.0.0.5:4040'', Some ''/config'')])"
    by (simp add: example_hosts fetch_E)
  have shape: "config_doc = JObj [(''plugins'',
            JObj [(''@arkecosystem/core-api'',
                   JObj [(''enabled'', JBool True), (''port'', JNum 4003)])])]"
    "get [(''plugins'', JObj [(''@arkecosystem/core-api'',
                   JObj [(''enabled'', JBool True), (''port'', JNum 4003)])])] ''plugins''
       = JObj [(''@arkecosystem/core-api'', JObj [(''enabled'', JBool True), (''port'', JNum 4003)])]"
    "get [(''@arkecosystem/core-api'', JObj [(''enabled'', JBool True), (''port'', JNum 4003)])]
        ''@arkecosystem/core-api'' = JObj [(''enabled'', JBool True), (''port'', JNum 4003)]"
    "truthy (get [(''enabled'', JBool True), (''port'', JNum 4003)] ''enabled'')"
    "get [(''enabled'', JBool True), (''port'', JNum 4003)] ''port'' = JNum 4003"
    by (simp_all add: config_doc_def get_def)
  have en: "api_enabled config_doc"
    by (rule enabled_part [THEN iffD2], (rule exI)+, intro conjI,
        rule shape(1), rule shape(2), rule shape(3), rule shape(4))
  have "api_port config_doc = get [(''enabled'', JBool True), (''port'', JNum 4003)] ''port''"
    by (rule port_part [OF conjI [OF shape(1) conjI [OF shape(2) shape(3)]]])
  then have po: "api_port config_doc = JNum 4003"
    by (simp only: shape(5))
  have off: "get [(''enabled'', JBool False), (''port'', JNum 4004)] ''enabled'' = JBool False"
    by (simp add: get_def)
  have dis: "\<not> api_enabled disabled_doc"
  proof
    assume "api_enabled disabled_doc"
    then have "\<exists>doc plugins plugin.
           disabled_doc = JObj doc \<and> get doc ''plugins'' = JObj plugins
           \<and> get plugins ''@arkecosystem/core-api'' = JObj plugin
           \<and> truthy (get plugin ''enabled'')"
      by (rule enabled_part [THEN iffD1])
    then obtain doc plugins plugin where
      "disabled_doc = JObj doc" "get doc ''plugins'' = JObj plugins"
      "get plugins ''@arkecosystem/core-api'' = JObj plugin" "truthy (get plugin ''enabled'')"
      by (elim exE conjE)
    then show False by (auto simp: disabled_doc_def get_def)
  qed
  have "selectApiPeer live_world ([seenD] @ seenE # [peerA]) []
          = (Some (spread seenE [(''port'', api_port config_doc)]),
             [(''http://10.0.0.4:4001'', Some ''/config''), (''http://10.0.0.5:4001'', Some ''/config''),
              (''http://10.0.0.5:4040'', Some ''/config'')])"
    by (rule first_part [OF conjI [OF d conjI [OF e en]]])
  then have live: "selectApiPeer live_world [seenD, seenE, peerA] []
       = (Some [(''ip'', JStr ''10.0.0.5''), (''port'', JNum 4003), (''status'', JNum 200),
                (''height'', JNum 120), (''delay'', JNum 35)],
          [(''http://10.0.0.4:4001'', Some ''/config''), (''http://10.0.0.5:4001'', Some ''/config''),
           (''http://10.0.0.5:4040'', Some ''/config'')])"
    by (simp only: po port_E append.simps)
  have fe: "fetched live_world [] [seenD, peerA] = [disabled_doc, other_doc]"
    by (simp add: example_hosts fetch_D fetch_A)
  have "fst (selectApiPeer live_world [seenD, peerA] [])
          = (case find (\<lambda>(peer, config). api_enabled config)
                    (zip [seenD, peerA] (fetched live_world [] [seenD, peerA])) of
               None \<Rightarrow> None
             | Some (peer, config) \<Rightarrow> Some (spread peer [(''port'', api_port config)]))"
    by (rule find_part)
  then have other: "fst (selectApiPeer live_world [seenD, peerA] [])
       = Some [(''ip'', JStr ''10.0.0.1''), (''port'', JNum 4103)]"
    by (simp only: fe) (simp add: dis example_configs port_A)
  have "\<forall>c\<in>set (fetched dead_world [] [seenD, seenE, peerA]). \<not> api_enabled c"
    by (simp add: fetch_dead example_configs)
  then have dead: "fst (selectApiPeer dead_world [seenD, seenE, peerA] []) = None"
    by (rule none_part)
  show ?thesis
    by (intro conjI d fe dis off e en po live example_configs(7) other dead)
qed

section \<open>The handle of connect\<close>

text \<open>
  C8. connect takes the list findPeers returns, and fails as findPeers does. For
  version 1 the handle is bound to the host of the first peer of the list and to
  version 1. For version 2 the choice is selectApiPeer's over the whole list: without a
  peer that has the sub-service enabled connect fails with NoApiPeerFoundError, and with
  one the handle is bound to that peer's address and port and to version 2.
\<close>

theorem C8_connect_binds:
  "(findPeers w network version peersOverride = Inl err \<longrightarrow>
      connect w network version peersOverride = Inl err)
   \<and> (findPeers w network version peersOverride = Inr (peer # rest, log) \<and> version = JNum 1 \<longrightarrow>
        connect w network version peersOverride
          = Inr \<lparr>this_http = Some \<lparr>hc_host = peerHost peer, hc_version = JNum 1\<rparr>,
                 this_version = JNum 1\<rparr>)
   \<and> (findPeers w network version peersOverride = Inr (peers, log) \<and> version = JNum 2
        \<and> fst (selectApiPeer w peers []) = None \<longrightarrow>
        connect w network version peersOverride = Inl NoApiPeerFoundError)
   \<and> (findPeers w network version peersOverride = Inr (peers, log) \<and> version = JNum 2
        \<and> fst (selectApiPeer w peers []) = Some chosen \<longrightarrow>
        connect w network version peersOverride
          = Inr \<lparr>this_http = Some \<lparr>hc_host = peerHost chosen, hc_version = JNum 2\<rparr>,
                 this_version = JNum 2\<rparr>)
   \<and> peerHost chosen
       = ''http://'' @ to_string (get chosen ''ip'') @ '':'' @ to_string (get chosen ''port'')"
  by (auto simp: connect_def new_ApiClient_def setVersion_def setConnection_def peerHost_def)

lemma live_findPeers_v1:
  "findPeers live_world ''devnet'' (JNum 1) Undefined
     = Inr ([seenE, seenD],
            [''http://10.0.0.1:4001'', ''http://10.0.0.2:4001'', ''http://10.0.0.3:4001''])"
proof -
  have "initialPeers live_world ''devnet'' = Some [peerA, peerB, peerC]"
    and "sortPeers live_world [seenD, seenE] = [seenE, seenD]"
    by (simp_all add: live_world_def dead_world_def sort_DE)
  then show ?thesis
    unfolding findPeers_def networkPeers_of_def Let_def
    by (simp add: live_run cloneDeep_def dom_def del: probe_loop.simps)
qed

lemma live_findPeers_v2:
  "findPeers live_world ''devnet'' (JNum 2) (Peers [seenD, seenE])
     = Inr ([seenE, seenD], [''http://10.0.0.4:4001'', ''http://10.0.0.5:4001''])"
proof -
  have run: "probe_loop live_world (JNum 2) [seenD, seenE] 0 [] []
          = (0, [], [''http://10.0.0.4:4001'', ''http://10.0.0.5:4001''])"
    by (simp add: example_hosts live_world_def dead_world_def responsePeers_of_def)
  have "sortPeers live_world [seenD, seenE] = [seenE, seenD]"
    by (simp add: live_world_def dead_world_def sort_DE)
  then show ?thesis
    unfolding findPeers_def networkPeers_of_def Let_def
    by (simp add: run cloneDeep_def del: probe_loop.simps)
qed

lemma live_select:
  "selectApiPeer live_world [seenE, seenD] []
     = (Some (spread seenE [(''port'', JNum 4003)]),
        [(''http://10.0.0.5:4001'', Some ''/config''), (''http://10.0.0.5:4040'', Some ''/config'')])"
  by (simp add: example_hosts fetch_E example_configs)

lemma dead_findPeers_v2:
  "findPeers dead_world ''devnet'' (JNum 2) Undefined
     = Inr ([peerA, peerB, peerC],
            [''http://10.0.0.1:4001'', ''http://10.0.0.2:4001'', ''http://10.0.0.3:4001''])"
proof -
  have "probe_loop dead_world (JNum 2) [peerA, peerB, peerC] 0 [] []
          = (0, [], [] @ map peerUrl [peerA, peerB, peerC])"
    by (rule probe_loop_rejected) (simp add: dead_world_def)
  then have run: "probe_loop dead_world (JNum 2) [peerA, peerB, peerC] 0 [] []
          = (0, [], [''http://10.0.0.1:4001'', ''http://10.0.0.2:4001'', ''http://10.0.0.3:4001''])"
    by (simp only: seed_urls list.map append.simps)
  have "initialPeers dead_world ''devnet'' = Some [peerA, peerB, peerC]"
    and "sortPeers dead_world [peerA, peerB, peerC] = [peerA, peerB, peerC]"
    by (simp_all add: dead_world_def sort_seed)
  then show ?thesis
    unfolding findPeers_def networkPeers_of_def Let_def
    by (simp add: run cloneDeep_def dom_def del: probe_loop.simps)
qed

lemma fetched_dead: "\<forall>c\<in>set (fetched dead_world log ps). \<not> api_enabled c"
  by (induction ps arbitrary: log) (simp_all add: fetch_dead example_configs)

lemma dead_select: "fst (selectApiPeer dead_world ps log) = None"
  by (rule selectApiPeer_none) (rule fetched_dead)

lemma host_E_api: "peerHost (spread seenE [(''port'', JNum 4003)]) = ''http://10.0.0.5:4003''"
  by (simp add: port_E) (simp add: peerHost_def get_def digits_of.simps digit_char_def)

lemma dead_unsupported:
  "findPeers dead_world ''nonet'' (JNum 2) Undefined = Inl (UnsupportedNetworkError ''nonet'')"
  by (simp add: findPeers_def dead_world_def)

theorem C8_connect_binds_witness:
  "findPeers live_world ''devnet'' (JNum 1) Undefined
     = Inr (seenE # [seenD],
            [''http://10.0.0.1:4001'', ''http://10.0.0.2:4001'', ''http://10.0.0.3:4001''])
   \<and> connect live_world ''devnet'' (JNum 1) Undefined
       = Inr \<lparr>this_http = Some \<lparr>hc_host = ''http://10.0.0.5:4001'', hc_version = JNum 1\<rparr>,
              this_version = JNum 1\<rparr>
   \<and> findPeers live_world ''devnet'' (JNum 2) (Peers [seenD, seenE])
       = Inr ([seenE, seenD], [''http://10.0.0.4:4001'', ''http://10.0.0.5:4001''])
   \<and> fst (selectApiPeer live_world [seenE, seenD] []) = Some (spread seenE [(''port'', JNum 4003)])
   \<and> connect live_world ''devnet'' (JNum 2) (Peers [seenD, seenE])
       = Inr \<lparr>this_http = Some \<lparr>hc_host = ''http://10.0.0.5:4003'', hc_version = JNum 2\<rparr>,
              this_version = JNum 2\<rparr>
   \<and> findPeers dead_world ''devnet'' (JNum 2) Undefined
       = Inr ([peerA, peerB, peerC],
              [''http://10.0.0.1:4001'', ''http://10.0.0.2:4001'', ''http://10.0.0.3:4001''])
   \<and> fst (selectApiPeer dead_world [peerA, peerB, peerC] []) = None
   \<and> connect dead_world ''devnet'' (JNum 2) Undefined = Inl NoApiPeerFoundError
   \<and> connect dead_world ''nonet'' (JNum 2) Undefined = Inl (UnsupportedNetworkError ''nonet'')"
proof -
  have f1: "findPeers live_world ''devnet'' (JNum 1) Undefined
     = Inr (seenE # [seenD],
            [''http://10.0.0.1:4001'', ''http://10.0.0.2:4001'', ''http://10.0.0.3:4001''])"
    by (rule live_findPeers_v1)
  have c1: "connect live_world ''devnet'' (JNum 1) Undefined
       = Inr \<lparr>this_http = Some \<lparr>hc_host = peerHost seenE, hc_version = JNum 1\<rparr>,
              this_version = JNum 1\<rparr>"
    using C8_connect_binds [where w = live_world and network = "''devnet''" and version = "JNum 1"
        and peersOverride = Undefined and peer = seenE and rest = "[seenD]"
        and log = "[''http://10.0.0.1:4001'', ''http://10.0.0.2:4001'', ''http://10.0.0.3:4001'']"] f1
    by blast
  have f2: "findPeers live_world ''devnet'' (JNum 2) (Peers [seenD, seenE])
       = Inr ([seenE, seenD], [''http://10.0.0.4:4001'', ''http://10.0.0.5:4001''])"
    by (rule live_findPeers_v2)
  have s2: "fst (selectApiPeer live_world [seenE, seenD] []) = Some (spread seenE [(''port'', JNum 4003)])"
    by (simp only: live_select fst_conv)
  have c2: "connect live_world ''devnet'' (JNum 2) (Peers [seenD, seenE])
       = Inr \<lparr>this_http = Some \<lparr>hc_host = peerHost (spread seenE [(''port'', JNum 4003)]),
                                hc_version = JNum 2\<rparr>,
              this_version = JNum 2\<rparr>"
    using C8_connect_binds [where w = live_world and network = "''devnet''" and version = "JNum 2"
        and peersOverride = "Peers [seenD, seenE]" and peers = "[seenE, seenD]"
        and log = "[''http://10.0.0.4:4001'', ''http://10.0.0.5:4001'']"
        and chosen = "spread seenE [(''port'', JNum 4003)]"] f2 s2
    by blast
  have f3: "findPeers dead_world ''devnet'' (JNum 2) Undefined
       = Inr ([peerA, peerB, peerC],
              [''http://10.0.0.1:4001'', ''http://10.0.0.2:4001'', ''http://10.0.0.3:4001''])"
    by (rule dead_findPeers_v2)
  have s3: "fst (selectApiPeer dead_world [peerA, peerB, peerC] []) = None"
    by (rule dead_select)
  have c3: "connect dead_world ''devnet'' (JNum 2) Undefined = Inl NoApiPeerFoundError"
    using C8_connect_binds [where w = dead_world and network = "''devnet''" and version = "JNum 2"
        and peersOverride = Undefined and peers = "[peerA, peerB, peerC]"
        and log = "[''http://10.0.0.1:4001'', ''http://10.0.0.2:4001'', ''http://10.0.0.3:4001'']"]
      f3 s3
    by blast
  have c4: "connect dead_world ''nonet'' (JNum 2) Undefined = Inl (UnsupportedNetworkError ''nonet'')"
    using C8_connect_binds [where w = dead_world and network = "''nonet''" and version = "JNum 2"
        and peersOverride = Undefined and err = "UnsupportedNetworkError ''nonet''"]
      dead_unsupported by blast
  from f1 c1 f2 s2 c2 f3 s3 c3 c4 show ?thesis
    by (simp only: example_hosts host_E_api simp_thms)
qed

end
